theory Spec2Isabelle
  imports Complex_Main "HOL-Library.Word" "HOL-Library.Monad_Syntax"
begin


section \<open>The C bridge of OpenSCADKit: render pipeline and mesh extraction\<close>

text \<open>
  A shallow embedding of \<^verbatim>\<open>src/io/export_cbridge.cc\<close>.

  \<^item> The floating-point arithmetic of the target is not fixed here: every operation on
    \<^verbatim>\<open>double\<close> (type \<open>'d\<close>) and \<^verbatim>\<open>float\<close> (type \<open>'f\<close>) that the source uses is a field of
    the record \<open>fp_ops\<close>, and every theorem holds for every interpretation of them.
  \<^item> \<^verbatim>\<open>uint32_t\<close> is \<open>32 word\<close>; \<^verbatim>\<open>size_t\<close> values are lengths and positions of vectors that
    exist in memory and are natural numbers.
  \<^item> \<^verbatim>\<open>std::vector::operator[]\<close> is unchecked in C++; here every indexed read and write
    is checked and yields \<open>None\<close> out of range, so that memory safety is a theorem.
  \<^item> The parser, the evaluator and the geometry kernel are external: each call to them
    is a value of type \<open>call\<close> saying what it printed, whether another thread
    requested cancellation while it ran, and whether it returned or threw.
  \<^item> Exceptions come from the calls into the engine and from the allocations of
    \<^verbatim>\<open>extractMeshData\<close>: the two calls of \<^verbatim>\<open>reserve\<close> and every \<^verbatim>\<open>push_back\<close> onto
    \<^verbatim>\<open>result->indices\<close>, each of which can throw \<^verbatim>\<open>std::bad_alloc\<close>. The allocation of the
    result object (line 199) and the allocations of the strings of the bridge are taken to
    succeed. One render runs at a time.
\<close>

subsection \<open>Floating point and vectors\<close>

record ('d, 'f) fp_ops =
  d_add :: "'d \<Rightarrow> 'd \<Rightarrow> 'd"
  d_sub :: "'d \<Rightarrow> 'd \<Rightarrow> 'd"
  d_mul :: "'d \<Rightarrow> 'd \<Rightarrow> 'd"
  d_div :: "'d \<Rightarrow> 'd \<Rightarrow> 'd"
  d_sqrt :: "'d \<Rightarrow> 'd"
  d_pos :: "'d \<Rightarrow> bool"
  to_float :: "'d \<Rightarrow> 'f"
  f_zero :: "'f"
  f_one :: "'f"
  f_add :: "'f \<Rightarrow> 'f \<Rightarrow> 'f"
  f_mul :: "'f \<Rightarrow> 'f \<Rightarrow> 'f"
  f_div :: "'f \<Rightarrow> 'f \<Rightarrow> 'f"
  f_sqrt :: "'f \<Rightarrow> 'f"
  f_pos :: "'f \<Rightarrow> bool"

text \<open>\<open>d_pos x\<close> and \<open>f_pos x\<close> are the comparisons \<^verbatim>\<open>x > 0\<close>.\<close>

type_synonym 'a vec3 = "'a \<times> 'a \<times> 'a"

fun vx :: "'a vec3 \<Rightarrow> 'a" where
  "vx (x, y, z) = x"

fun vy :: "'a vec3 \<Rightarrow> 'a" where
  "vy (x, y, z) = y"

fun vz :: "'a vec3 \<Rightarrow> 'a" where
  "vz (x, y, z) = z"

text \<open>
  The operations of Eigen's \<^verbatim>\<open>Vector3d\<close> that \<^verbatim>\<open>extractMeshData\<close> calls (Eigen is not
  part of the sources): difference, cross product, Euclidean norm, division by a scalar.
\<close>

fun vsub :: "('d, 'f) fp_ops \<Rightarrow> 'd vec3 \<Rightarrow> 'd vec3 \<Rightarrow> 'd vec3" where
  "vsub fp (a1, a2, a3) (b1, b2, b3) = (d_sub fp a1 b1, d_sub fp a2 b2, d_sub fp a3 b3)"

fun cross3 :: "('d, 'f) fp_ops \<Rightarrow> 'd vec3 \<Rightarrow> 'd vec3 \<Rightarrow> 'd vec3" where
  "cross3 fp (a1, a2, a3) (b1, b2, b3) =
     (d_sub fp (d_mul fp a2 b3) (d_mul fp a3 b2),
      d_sub fp (d_mul fp a3 b1) (d_mul fp a1 b3),
      d_sub fp (d_mul fp a1 b2) (d_mul fp a2 b1))"

fun norm3 :: "('d, 'f) fp_ops \<Rightarrow> 'd vec3 \<Rightarrow> 'd" where
  "norm3 fp (x, y, z) =
     d_sqrt fp (d_add fp (d_add fp (d_mul fp x x) (d_mul fp y y)) (d_mul fp z z))"

fun vdiv :: "('d, 'f) fp_ops \<Rightarrow> 'd vec3 \<Rightarrow> 'd \<Rightarrow> 'd vec3" where
  "vdiv fp (x, y, z) s = (d_div fp x s, d_div fp y s, d_div fp z s)"

subsection \<open>Data model\<close>

text \<open>
  \<^verbatim>\<open>PolySet\<close> as \<^verbatim>\<open>extractMeshData\<close> reads it: \<^verbatim>\<open>ps->vertices\<close> and \<^verbatim>\<open>ps->indices\<close>
  (a face is a vector of \<^verbatim>\<open>int\<close>). The fields carry a prefix because the render result
  has a field \<open>indices\<close> of its own.
\<close>

record 'd PolySet =
  ps_vertices :: "'d vec3 list"
  ps_indices :: "int list list"

record 'f OpenSCADRenderResult =
  success :: bool
  error_message :: string
  console_output :: string
  positions :: "'f list"
  normals :: "'f list"
  indices :: "32 word list"
  vertex_count :: nat
  triangle_count :: nat

text \<open>\<^verbatim>\<open>new OpenSCADRenderResult()\<close>: value-initialised, every vector and string empty.\<close>

definition new_result :: "'f OpenSCADRenderResult" where
  "new_result =
     \<lparr>success = False, error_message = [], console_output = [],
      positions = [], normals = [], indices = [], vertex_count = 0, triangle_count = 0\<rparr>"

text \<open>The two atomics of the anonymous namespace.\<close>

record world =
  g_initialized :: bool
  g_cancelled :: bool

datatype exn = StdException string | OtherException

text \<open>
  One call into the engine: the text it wrote to \<^verbatim>\<open>std::cout\<close> and \<^verbatim>\<open>std::cerr\<close>, whether
  \<^verbatim>\<open>openscad_cancel\<close> ran on another thread before it came back, and its outcome
  (\<open>Inl\<close>: the exception it threw).
\<close>

record 'a call =
  printed :: string
  cancel_req :: bool
  outcome :: "exn + 'a"

text \<open>
  The engine behind the bridge. \<open>instantiate\<close> stands for lines 247 to 260 (session,
  builtin context, \<^verbatim>\<open>source_file->instantiate\<close>), \<open>evaluateGeometry\<close> for lines 282 to
  286 (tree, evaluator, \<^verbatim>\<open>evaluateGeometry\<close>).
\<close>

record ('sf, 'node, 'geom, 'd) engine =
  engine_setup :: "unit call"
  parse :: "string \<Rightarrow> (bool \<times> 'sf option) call"
  instantiate :: "'sf \<Rightarrow> 'node option call"
  evaluateGeometry :: "'node \<Rightarrow> 'geom option call"
  getGeometryAsPolySet :: "'geom \<Rightarrow> 'd PolySet option call"
  isEmpty :: "'d PolySet \<Rightarrow> bool"
  isTriangular :: "'d PolySet \<Rightarrow> bool"
  tessellate_faces :: "'d PolySet \<Rightarrow> 'd PolySet option call"

subsection \<open>Checked vector access\<close>

definition vec_at :: "'a list \<Rightarrow> nat \<Rightarrow> 'a option" where
  "vec_at xs i = (if i < length xs then Some (xs ! i) else None)"

definition vec_put :: "'a list \<Rightarrow> nat \<Rightarrow> 'a \<Rightarrow> 'a list option" where
  "vec_put xs i v = (if i < length xs then Some (xs[i := v]) else None)"

text \<open>\<^verbatim>\<open>xs[i] += v\<close> on a vector of \<^verbatim>\<open>float\<close>.\<close>

definition add_at :: "('d, 'f) fp_ops \<Rightarrow> 'f list \<Rightarrow> nat \<Rightarrow> 'f \<Rightarrow> 'f list option" where
  "add_at fp xs i v = (if i < length xs then Some (xs[i := f_add fp (xs ! i) v]) else None)"

subsection \<open>extractMeshData\<close>

text \<open>Lines 106 to 113: copy the vertices and push three zeros per vertex.\<close>

primrec copy_vertices ::
  "('d, 'f) fp_ops \<Rightarrow> 'd vec3 list \<Rightarrow> 'f list \<times> 'f list \<Rightarrow> 'f list \<times> 'f list" where
  "copy_vertices fp [] pn = pn"
| "copy_vertices fp (v # vs) pn =
     copy_vertices fp vs
       (fst pn @ [to_float fp (vx v), to_float fp (vy v), to_float fp (vz v)],
        snd pn @ [f_zero fp, f_zero fp, f_zero fp])"

text \<open>
  Lines 143 to 145, for one \<^verbatim>\<open>idx\<close>. \<^verbatim>\<open>idx * 3 + k\<close> is computed in \<^verbatim>\<open>uint32_t\<close> and wraps
  modulo \<open>2 ^ 32\<close> before it is widened to the \<^verbatim>\<open>size_t\<close> position.
\<close>

definition accumulate ::
  "('d, 'f) fp_ops \<Rightarrow> 'f list \<Rightarrow> 32 word \<Rightarrow> 'd vec3 \<Rightarrow> 'f list option" where
  "accumulate fp ns idx normal =
     do {
       ns0 \<leftarrow> add_at fp ns (unat (idx * 3 + 0)) (to_float fp (vx normal));
       ns1 \<leftarrow> add_at fp ns0 (unat (idx * 3 + 1)) (to_float fp (vy normal));
       add_at fp ns1 (unat (idx * 3 + 2)) (to_float fp (vz normal))
     }"

text \<open>
  Lines 117 to 148: the body of the loop over the faces. The state is the pair of
  \<^verbatim>\<open>result->normals\<close> and \<^verbatim>\<open>result->indices\<close>.
\<close>

definition face_step ::
  "('d, 'f) fp_ops \<Rightarrow> 'd vec3 list \<Rightarrow> nat \<Rightarrow> 'f list \<times> 32 word list \<Rightarrow> int list
     \<Rightarrow> ('f list \<times> 32 word list) option" where
  "face_step fp vs vertexCount st face =
     (if length face < 3 then Some st
      else
        let i0 = (word_of_int (face ! 0) :: 32 word);
            i1 = (word_of_int (face ! 1) :: 32 word);
            i2 = (word_of_int (face ! 2) :: 32 word);
            out = snd st @ [i0, i1, i2]
        in
          if unat i0 < vertexCount \<and> unat i1 < vertexCount \<and> unat i2 < vertexCount then
            do {
              v0 \<leftarrow> vec_at vs (unat i0);
              v1 \<leftarrow> vec_at vs (unat i1);
              v2 \<leftarrow> vec_at vs (unat i2);
              let normal = cross3 fp (vsub fp v1 v0) (vsub fp v2 v0);
                  len = norm3 fp normal
              in
                if d_pos fp len then
                  do {
                    ns0 \<leftarrow> accumulate fp (fst st) i0 (vdiv fp normal len);
                    ns1 \<leftarrow> accumulate fp ns0 i1 (vdiv fp normal len);
                    ns2 \<leftarrow> accumulate fp ns1 i2 (vdiv fp normal len);
                    Some (ns2, out)
                  }
                else Some (fst st, out)
            }
          else Some (fst st, out))"

primrec face_loop ::
  "('d, 'f) fp_ops \<Rightarrow> 'd vec3 list \<Rightarrow> nat \<Rightarrow> int list list \<Rightarrow> 'f list \<times> 32 word list
     \<Rightarrow> ('f list \<times> 32 word list) option" where
  "face_loop fp vs vertexCount [] st = Some st"
| "face_loop fp vs vertexCount (face # faces) st =
     (case face_step fp vs vertexCount st face of
        None \<Rightarrow> None
      | Some st' \<Rightarrow> face_loop fp vs vertexCount faces st')"

text \<open>Lines 153 to 166: the body of the loop that normalises, at vertex \<open>i\<close>.\<close>

definition normalize_at :: "('d, 'f) fp_ops \<Rightarrow> 'f list \<Rightarrow> nat \<Rightarrow> 'f list option" where
  "normalize_at fp ns i =
     do {
       nx \<leftarrow> vec_at ns (i * 3 + 0);
       ny \<leftarrow> vec_at ns (i * 3 + 1);
       nz \<leftarrow> vec_at ns (i * 3 + 2);
       let len = f_sqrt fp (f_add fp (f_add fp (f_mul fp nx nx) (f_mul fp ny ny)) (f_mul fp nz nz))
       in
         if f_pos fp len then
           do {
             ns0 \<leftarrow> vec_put ns (i * 3 + 0) (f_div fp nx len);
             ns1 \<leftarrow> vec_put ns0 (i * 3 + 1) (f_div fp ny len);
             vec_put ns1 (i * 3 + 2) (f_div fp nz len)
           }
         else
           do {
             ns0 \<leftarrow> vec_put ns (i * 3 + 0) (f_zero fp);
             ns1 \<leftarrow> vec_put ns0 (i * 3 + 1) (f_zero fp);
             vec_put ns1 (i * 3 + 2) (f_one fp)
           }
     }"

text \<open>The loop \<^verbatim>\<open>for (size_t i = 0; i < vertexCount; ++i)\<close> runs over \<open>[0..<vertexCount]\<close>.\<close>

primrec normalize_loop :: "('d, 'f) fp_ops \<Rightarrow> nat list \<Rightarrow> 'f list \<Rightarrow> 'f list option" where
  "normalize_loop fp [] ns = Some ns"
| "normalize_loop fp (i # is) ns =
     (case normalize_at fp ns i of
        None \<Rightarrow> None
      | Some ns' \<Rightarrow> normalize_loop fp is ns')"

text \<open>
  Lines 100 to 170 on the mesh \<open>ps\<close> chosen at lines 87 to 98, when no allocation fails.
  \<open>None\<close>: an access out of range (undefined behaviour in the source).
\<close>

definition fill_mesh ::
  "('d, 'f) fp_ops \<Rightarrow> 'd PolySet \<Rightarrow> 'f OpenSCADRenderResult \<Rightarrow> 'f OpenSCADRenderResult option" where
  "fill_mesh fp ps result =
     (let vertexCount = length (ps_vertices ps);
          pn = copy_vertices fp (ps_vertices ps) (positions result, normals result)
      in
        do {
          st \<leftarrow> face_loop fp (ps_vertices ps) vertexCount (ps_indices ps) (snd pn, indices result);
          ns \<leftarrow> normalize_loop fp [0..<vertexCount] (fst st);
          Some (result\<lparr>positions := fst pn, normals := ns, indices := snd st,
                        vertex_count := vertexCount, triangle_count := length (snd st) div 3\<rparr>)
        })"

text \<open>
  Every call into the engine is observed by the capture buffer, which is installed on
  both streams, and by the cancellation flag.
\<close>

definition observe :: "'a call \<Rightarrow> string \<times> world \<Rightarrow> string \<times> world" where
  "observe c cw =
     (fst cw @ printed c, (snd cw)\<lparr>g_cancelled := g_cancelled (snd cw) \<or> cancel_req c\<rparr>)"

text \<open>
  How a block of code ends: it finishes or returns with a result, it throws and leaves the
  object it works on in some state, or it has run into an access out of range.
\<close>

datatype 'r ending = Done 'r | Thrown exn 'r | Undefined

text \<open>
  The allocations of \<^verbatim>\<open>extractMeshData\<close> that can fail: \<^verbatim>\<open>result->positions.reserve\<close> (line
  102), \<^verbatim>\<open>result->normals.reserve\<close> (line 103) and \<^verbatim>\<open>push_back\<close> onto \<^verbatim>\<open>result->indices\<close>
  when it holds \<open>n\<close> elements (lines 123 to 125; the vector is never reserved). A
  memory says of each of them whether it succeeds. A failed allocation throws
  \<^verbatim>\<open>std::bad_alloc\<close> and leaves its vector as it was.
\<close>

datatype site = ReservePositions | ReserveNormals | PushIndex nat

type_synonym memory = "site \<Rightarrow> bool"

definition bad_alloc :: exn where
  "bad_alloc = StdException ''std::bad_alloc''"

text \<open>
  Lines 123 to 125: the entries are pushed one after the other; the second component
  tells whether every \<^verbatim>\<open>push_back\<close> succeeded.
\<close>

primrec push_indices :: "memory \<Rightarrow> 32 word list \<Rightarrow> 32 word list \<Rightarrow> 32 word list \<times> bool" where
  "push_indices mem [] out = (out, True)"
| "push_indices mem (i # is) out =
     (if mem (PushIndex (length out)) then push_indices mem is (out @ [i]) else (out, False))"

text \<open>
  The loop over the faces, lines 116 to 149, with the allocations. When a \<^verbatim>\<open>push_back\<close> of
  a face fails, the loop is left with the normals as the faces before have made them and
  the indices pushed so far; when the three succeed, the body of the loop is \<open>face_step\<close>.
\<close>

primrec face_loop_alloc ::
  "memory \<Rightarrow> ('d, 'f) fp_ops \<Rightarrow> 'd vec3 list \<Rightarrow> nat \<Rightarrow> int list list \<Rightarrow> 'f list \<times> 32 word list
     \<Rightarrow> ('f list \<times> 32 word list) ending" where
  "face_loop_alloc mem fp vs vertexCount [] st = Done st"
| "face_loop_alloc mem fp vs vertexCount (face # faces) st =
     (case push_indices mem
             (if length face < 3 then []
              else [word_of_int (face ! 0), word_of_int (face ! 1), word_of_int (face ! 2)])
             (snd st) of
        (out, False) \<Rightarrow> Thrown bad_alloc (fst st, out)
      | (out, True) \<Rightarrow>
          (case face_step fp vs vertexCount st face of
             None \<Rightarrow> Undefined
           | Some st' \<Rightarrow> face_loop_alloc mem fp vs vertexCount faces st'))"

text \<open>
  Lines 100 to 170 on the mesh \<open>ps\<close> chosen at lines 87 to 98, with the allocations.
  \<^verbatim>\<open>extractMeshData\<close> is called on the fresh result of line 199, whose vectors are empty, so
  the pushes of lines 107 to 112 stay within the capacity that lines 102 and 103 have
  reserved. The two counts are written last (lines 169 and 170): an exception leaves them
  as they were.
\<close>

definition fill_mesh_alloc ::
  "memory \<Rightarrow> ('d, 'f) fp_ops \<Rightarrow> 'd PolySet \<Rightarrow> 'f OpenSCADRenderResult
     \<Rightarrow> 'f OpenSCADRenderResult ending" where
  "fill_mesh_alloc mem fp ps result =
     (let vertexCount = length (ps_vertices ps) in
        if \<not> mem ReservePositions then Thrown bad_alloc result
        else if \<not> mem ReserveNormals then Thrown bad_alloc result
        else
          let pn = copy_vertices fp (ps_vertices ps) (positions result, normals result) in
            case face_loop_alloc mem fp (ps_vertices ps) vertexCount (ps_indices ps)
                   (snd pn, indices result) of
              Thrown e st \<Rightarrow>
                Thrown e (result\<lparr>positions := fst pn, normals := fst st, indices := snd st\<rparr>)
            | Undefined \<Rightarrow> Undefined
            | Done st \<Rightarrow>
                (case normalize_loop fp [0..<vertexCount] (fst st) of
                   None \<Rightarrow> Undefined
                 | Some ns \<Rightarrow>
                     Done (result\<lparr>positions := fst pn, normals := ns, indices := snd st,
                                  vertex_count := vertexCount,
                                  triangle_count := length (snd st) div 3\<rparr>)))"

text \<open>
  \<^verbatim>\<open>extractMeshData\<close>, lines 85 to 171. \<^verbatim>\<open>tessellate_faces\<close> is called before the first
  write to \<^verbatim>\<open>result\<close>; an exception of the loops leaves \<^verbatim>\<open>result\<close> partly written.
\<close>

definition extractMeshData ::
  "memory \<Rightarrow> ('d, 'f) fp_ops \<Rightarrow> ('sf, 'node, 'geom, 'd) engine \<Rightarrow> 'd PolySet
     \<Rightarrow> 'f OpenSCADRenderResult
     \<Rightarrow> string \<times> world \<Rightarrow> 'f OpenSCADRenderResult ending \<times> string \<times> world" where
  "extractMeshData mem fp eng polyset result cw =
     (if \<not> isTriangular eng polyset then
        let c = tessellate_faces eng polyset; cw1 = observe c cw in
          case outcome c of
            Inl e \<Rightarrow> (Thrown e result, cw1)
          | Inr triangulated \<Rightarrow>
              (fill_mesh_alloc mem fp (case triangulated of Some t \<Rightarrow> t | None \<Rightarrow> polyset) result,
               cw1)
      else (fill_mesh_alloc mem fp polyset result, cw))"

subsection \<open>The C API\<close>

text \<open>
  \<^verbatim>\<open>openscad_init\<close>, lines 178 to 194. The argument is the run of lines 186 to 188
  (\<^verbatim>\<open>registerApplicationPath\<close>, \<^verbatim>\<open>Builtins::initialize\<close>), which is only looked at when the
  flag was clear.
\<close>

definition openscad_init :: "unit call \<Rightarrow> world \<Rightarrow> int \<times> world" where
  "openscad_init setup w =
     (if g_initialized w then (0, w)
      else
        let w1 = w\<lparr>g_initialized := True, g_cancelled := g_cancelled w \<or> cancel_req setup\<rparr> in
          case outcome setup of
            Inr u \<Rightarrow> (0, w1)
          | Inl e \<Rightarrow> (- 1, w1\<lparr>g_initialized := False\<rparr>))"

definition openscad_cancel :: "world \<Rightarrow> world" where
  "openscad_cancel w = w\<lparr>g_cancelled := True\<rparr>"

text \<open>An early \<^verbatim>\<open>return result\<close> of \<^verbatim>\<open>openscad_render\<close> with a message.\<close>

definition failed ::
  "string \<Rightarrow> string \<Rightarrow> 'f OpenSCADRenderResult \<Rightarrow> 'f OpenSCADRenderResult" where
  "failed msg captured result = result\<lparr>error_message := msg, console_output := captured\<rparr>"

text \<open>Lines 307 to 325.\<close>

definition render_polyset ::
  "memory \<Rightarrow> ('d, 'f) fp_ops \<Rightarrow> ('sf, 'node, 'geom, 'd) engine \<Rightarrow> 'f OpenSCADRenderResult
     \<Rightarrow> 'geom
     \<Rightarrow> string \<times> world \<Rightarrow> 'f OpenSCADRenderResult ending \<times> string \<times> world" where
  "render_polyset mem fp eng result geometry cw =
     (let c = getGeometryAsPolySet eng geometry; cw1 = observe c cw in
        case outcome c of
          Inl e \<Rightarrow> (Thrown e result, cw1)
        | Inr None \<Rightarrow> (Done (failed ''Geometry produced no mesh data'' (fst cw1) result), cw1)
        | Inr (Some polyset) \<Rightarrow>
            if isEmpty eng polyset then
              (Done (failed ''Geometry produced no mesh data'' (fst cw1) result), cw1)
            else
              (case extractMeshData mem fp eng polyset result cw1 of
                 (Done r, cw2) \<Rightarrow> (Done (r\<lparr>success := True, console_output := fst cw2\<rparr>), cw2)
               | (Thrown e r, cw2) \<Rightarrow> (Thrown e r, cw2)
               | (Undefined, cw2) \<Rightarrow> (Undefined, cw2)))"

text \<open>Lines 281 to 305.\<close>

definition render_geometry ::
  "memory \<Rightarrow> ('d, 'f) fp_ops \<Rightarrow> ('sf, 'node, 'geom, 'd) engine \<Rightarrow> 'f OpenSCADRenderResult
     \<Rightarrow> 'node
     \<Rightarrow> string \<times> world \<Rightarrow> 'f OpenSCADRenderResult ending \<times> string \<times> world" where
  "render_geometry mem fp eng result root_node cw =
     (let c = evaluateGeometry eng root_node; cw1 = observe c cw in
        case outcome c of
          Inl e \<Rightarrow> (Thrown e result, cw1)
        | Inr None \<Rightarrow> (Done (failed ''Failed to evaluate geometry'' (fst cw1) result), cw1)
        | Inr (Some geometry) \<Rightarrow>
            if g_cancelled (snd cw1) then
              (Done (failed ''Render cancelled'' (fst cw1) result), cw1)
            else render_polyset mem fp eng result geometry cw1)"

text \<open>Lines 246 to 279.\<close>

definition render_node ::
  "memory \<Rightarrow> ('d, 'f) fp_ops \<Rightarrow> ('sf, 'node, 'geom, 'd) engine \<Rightarrow> 'f OpenSCADRenderResult
     \<Rightarrow> 'sf
     \<Rightarrow> string \<times> world \<Rightarrow> 'f OpenSCADRenderResult ending \<times> string \<times> world" where
  "render_node mem fp eng result source_file cw =
     (let c = instantiate eng source_file; cw1 = observe c cw in
        case outcome c of
          Inl e \<Rightarrow> (Thrown e result, cw1)
        | Inr None \<Rightarrow> (Done (failed ''Failed to instantiate module'' (fst cw1) result), cw1)
        | Inr (Some root_node) \<Rightarrow>
            if g_cancelled (snd cw1) then
              (Done (failed ''Render cancelled'' (fst cw1) result), cw1)
            else render_geometry mem fp eng result root_node cw1)"

text \<open>Lines 221 to 244, and with the three definitions above the whole \<^verbatim>\<open>try\<close> block.\<close>

definition render_source ::
  "memory \<Rightarrow> ('d, 'f) fp_ops \<Rightarrow> ('sf, 'node, 'geom, 'd) engine \<Rightarrow> 'f OpenSCADRenderResult
     \<Rightarrow> string
     \<Rightarrow> string \<times> world \<Rightarrow> 'f OpenSCADRenderResult ending \<times> string \<times> world" where
  "render_source mem fp eng result scad_source cw =
     (let c = parse eng scad_source; cw1 = observe c cw in
        case outcome c of
          Inl e \<Rightarrow> (Thrown e result, cw1)
        | Inr (parse_result, None) \<Rightarrow>
            (Done (failed ''Failed to parse OpenSCAD source'' (fst cw1) result), cw1)
        | Inr (parse_result, Some source_file) \<Rightarrow>
            if \<not> parse_result then
              (Done (failed ''Failed to parse OpenSCAD source'' (fst cw1) result), cw1)
            else if g_cancelled (snd cw1) then
              (Done (failed ''Render cancelled'' (fst cw1) result), cw1)
            else render_node mem fp eng result source_file cw1)"

text \<open>
  The two \<^verbatim>\<open>catch\<close> clauses, lines 327 to 333. They write the message and the console
  text into the result object as the \<^verbatim>\<open>try\<close> block has left it, and clear nothing.
\<close>

fun caught :: "exn \<Rightarrow> string \<Rightarrow> 'f OpenSCADRenderResult \<Rightarrow> 'f OpenSCADRenderResult" where
  "caught (StdException what) captured result =
     result\<lparr>error_message := ''Exception: '' @ what, console_output := captured\<rparr>"
| "caught OtherException captured result =
     result\<lparr>error_message := ''Unknown exception during render'', console_output := captured\<rparr>"

text \<open>Lines 207 to 213: the implicit initialisation, with the status it leaves.\<close>

definition ensure_initialized ::
  "('sf, 'node, 'geom, 'd) engine \<Rightarrow> world \<Rightarrow> int \<times> world" where
  "ensure_initialized eng w =
     (if \<not> g_initialized w then openscad_init (engine_setup eng) w else (0, w))"

text \<open>
  \<^verbatim>\<open>openscad_render\<close>, lines 196 to 340. It returns the result handle and the new value
  of the two flags; \<open>None\<close> in the place of the handle stands for undefined behaviour.
  \<open>scad_source\<close> is a valid C string; \<open>fonts_path\<close> may be \<^verbatim>\<open>NULL\<close> (\<open>None\<close>) and is not used
  (line 197). The \<^verbatim>\<open>new\<close> of line 199, which stands before the \<^verbatim>\<open>try\<close> block, and the
  string assignments, also those of the two handlers, are taken to succeed.
\<close>

definition openscad_render ::
  "memory \<Rightarrow> ('d, 'f) fp_ops \<Rightarrow> ('sf, 'node, 'geom, 'd) engine \<Rightarrow> string \<Rightarrow> string option
     \<Rightarrow> world
     \<Rightarrow> 'f OpenSCADRenderResult option \<times> world" where
  "openscad_render mem fp eng scad_source fonts_path w =
     (let result = new_result\<lparr>success := False, vertex_count := 0, triangle_count := 0\<rparr>;
          iw = ensure_initialized eng (w\<lparr>g_cancelled := False\<rparr>)
      in
        if fst iw \<noteq> 0 then
          (Some (result\<lparr>error_message := ''Failed to initialize OpenSCAD engine''\<rparr>), snd iw)
        else
          case render_source mem fp eng result scad_source ([], snd iw) of
            (Done r, cw) \<Rightarrow> (Some r, snd cw)
          | (Thrown e r, cw) \<Rightarrow> (Some (caught e (fst cw) r), snd cw)
          | (Undefined, cw) \<Rightarrow> (None, snd cw))"


subsection \<open>Reference definitions and sample interpretations\<close>

text \<open>
  What one face contributes to \<^verbatim>\<open>result->indices\<close> according to the specification:
  nothing when it has fewer than three entries, otherwise its first three entries in
  order (converted to \<^verbatim>\<open>uint32_t\<close> as line 119 to 121 do).
\<close>

definition spec_triangle :: "int list \<Rightarrow> 32 word list" where
  "spec_triangle face = (if length face < 3 then [] else map word_of_int (take 3 face))"

text \<open>A face whose first three entries name vertices of a mesh with \<open>vertexCount\<close> vertices.\<close>

definition valid_face :: "nat \<Rightarrow> int list \<Rightarrow> bool" where
  "valid_face vertexCount face =
     (length face < 3 \<or> list_all (\<lambda>e. 0 \<le> e \<and> e < int vertexCount) (take 3 face))"

text \<open>
  The per-vertex view of the normals that the specification takes. \<open>triple ns i\<close> is the
  accumulator of vertex \<open>i\<close> in the flat array, the three entries that lines 153 to 155
  read for it.
\<close>

definition triple :: "'a list \<Rightarrow> nat \<Rightarrow> 'a vec3" where
  "triple ns i = (ns ! (i * 3 + 0), ns ! (i * 3 + 1), ns ! (i * 3 + 2))"

definition result_normal :: "nat \<Rightarrow> 'f OpenSCADRenderResult \<Rightarrow> 'f vec3" where
  "result_normal i r = triple (normals r) i"

fun vaddf :: "('d, 'f) fp_ops \<Rightarrow> 'f vec3 \<Rightarrow> 'f vec3 \<Rightarrow> 'f vec3" where
  "vaddf fp (a1, a2, a3) (b1, b2, b3) = (f_add fp a1 b1, f_add fp a2 b2, f_add fp a3 b3)"

definition cast3 :: "('d, 'f) fp_ops \<Rightarrow> 'd vec3 \<Rightarrow> 'f vec3" where
  "cast3 fp v = (to_float fp (vx v), to_float fp (vy v), to_float fp (vz v))"

text \<open>
  Step 5 of the specification: the accumulated normal divided by its length, or the
  default normal \<open>(0, 0, 1)\<close> when the length is not positive.
\<close>

fun spec_normalize :: "('d, 'f) fp_ops \<Rightarrow> 'f vec3 \<Rightarrow> 'f vec3" where
  "spec_normalize fp (x, y, z) =
     (let len = f_sqrt fp (f_add fp (f_add fp (f_mul fp x x) (f_mul fp y y)) (f_mul fp z z))
      in if f_pos fp len then (f_div fp x len, f_div fp y len, f_div fp z len)
         else (f_zero fp, f_zero fp, f_one fp))"

text \<open>
  Step 3 of the specification: the normal of a face is the cross product of the edges
  \<open>v1 - v0\<close> and \<open>v2 - v0\<close> divided by its length. There is none when the face has fewer
  than three entries, when the length is not positive, or when one of the three indices
  names no vertex (the guard of line 128).
\<close>

definition spec_face_normal :: "('d, 'f) fp_ops \<Rightarrow> 'd vec3 list \<Rightarrow> int list \<Rightarrow> 'd vec3 option" where
  "spec_face_normal fp vs face =
     (if length face < 3 \<or> \<not> list_all (\<lambda>i. unat i < length vs) (spec_triangle face) then None
      else
        let v0 = vs ! unat (spec_triangle face ! 0);
            v1 = vs ! unat (spec_triangle face ! 1);
            v2 = vs ! unat (spec_triangle face ! 2);
            normal = cross3 fp (vsub fp v1 v0) (vsub fp v2 v0);
            len = norm3 fp normal
        in if d_pos fp len then Some (vdiv fp normal len) else None)"

text \<open>
  Step 4 of the specification: the normal of the face is added, unweighted, to the
  accumulator of each of its three vertices, one after the other.
\<close>

definition spec_add :: "('d, 'f) fp_ops \<Rightarrow> 'd vec3 \<Rightarrow> 32 word \<Rightarrow> 'f vec3 list \<Rightarrow> 'f vec3 list" where
  "spec_add fp n idx accs = accs[unat idx := vaddf fp (accs ! unat idx) (cast3 fp n)]"

definition spec_accumulate ::
  "('d, 'f) fp_ops \<Rightarrow> 'd vec3 list \<Rightarrow> 'f vec3 list \<Rightarrow> int list \<Rightarrow> 'f vec3 list" where
  "spec_accumulate fp vs accs face =
     (case spec_face_normal fp vs face of
        None \<Rightarrow> accs
      | Some n \<Rightarrow> fold (spec_add fp n) (spec_triangle face) accs)"

text \<open>The normals of the specification, one per vertex.\<close>

definition spec_normals :: "('d, 'f) fp_ops \<Rightarrow> 'd PolySet \<Rightarrow> 'f vec3 list" where
  "spec_normals fp ps =
     map (spec_normalize fp)
       (foldl (spec_accumulate fp (ps_vertices ps))
          (replicate (length (ps_vertices ps)) (f_zero fp, f_zero fp, f_zero fp))
          (ps_indices ps))"

text \<open>
  An interpretation of the arithmetic by exact real numbers, used to run the definitions
  on concrete meshes.
\<close>

definition exact_ops :: "(real, real) fp_ops" where
  "exact_ops =
     \<lparr>d_add = (+), d_sub = (-), d_mul = (*), d_div = (/), d_sqrt = sqrt, d_pos = (\<lambda>x. 0 < x),
      to_float = (\<lambda>x. x), f_zero = 0, f_one = 1,
      f_add = (+), f_mul = (*), f_div = (/), f_sqrt = sqrt, f_pos = (\<lambda>x. 0 < x)\<rparr>"

text \<open>An engine call that prints nothing, is not interrupted and returns \<open>v\<close>.\<close>

definition quiet :: "'a \<Rightarrow> 'a call" where
  "quiet v = \<lparr>printed = [], cancel_req = False, outcome = Inr v\<rparr>"

text \<open>
  A sample engine whose calls are scripted: each answers with the given call whatever
  its argument. A mesh is empty when it has no face and triangular when every face has
  three entries.
\<close>

definition scripted ::
  "unit call \<Rightarrow> (bool \<times> unit option) call \<Rightarrow> unit option call \<Rightarrow> unit option call
     \<Rightarrow> real PolySet option call \<Rightarrow> real PolySet option call \<Rightarrow> (unit, unit, unit, real) engine" where
  "scripted c_setup c_parse c_instantiate c_evaluate c_polyset c_tessellate =
     \<lparr>engine_setup = c_setup,
      parse = (\<lambda>src. c_parse),
      instantiate = (\<lambda>sf. c_instantiate),
      evaluateGeometry = (\<lambda>n. c_evaluate),
      getGeometryAsPolySet = (\<lambda>g. c_polyset),
      isEmpty = (\<lambda>p. ps_indices p = []),
      isTriangular = (\<lambda>p. list_all (\<lambda>face. length face = 3) (ps_indices p)),
      tessellate_faces = (\<lambda>p. c_tessellate)\<rparr>"

definition triangle_mesh :: "real PolySet" where
  "triangle_mesh = \<lparr>ps_vertices = [(0, 0, 0), (1, 0, 0), (0, 1, 0)], ps_indices = [[0, 1, 2]]\<rparr>"

text \<open>The engine that renders \<open>triangle_mesh\<close> without printing or failing.\<close>

definition plain_engine :: "(unit, unit, unit, real) engine" where
  "plain_engine =
     scripted (quiet ()) (quiet (True, Some ())) (quiet (Some ())) (quiet (Some ()))
       (quiet (Some triangle_mesh)) (quiet None)"

text \<open>An engine call that throws \<open>e\<close>; a call during which cancellation is requested; a call
  that prints \<open>s\<close>.\<close>

definition throwing :: "exn \<Rightarrow> 'a call" where
  "throwing e = \<lparr>printed = [], cancel_req = False, outcome = Inl e\<rparr>"

definition interrupted :: "'a call \<Rightarrow> 'a call" where
  "interrupted c = c\<lparr>cancel_req := True\<rparr>"

definition printing :: "string \<Rightarrow> 'a call \<Rightarrow> 'a call" where
  "printing s c = c\<lparr>printed := s\<rparr>"

text \<open>A mesh with one face of four entries, which is not triangular.\<close>

definition quad_mesh :: "real PolySet" where
  "quad_mesh =
     \<lparr>ps_vertices = [(0, 0, 0), (1, 0, 0), (1, 1, 0), (0, 1, 0)], ps_indices = [[0, 1, 2, 3]]\<rparr>"

text \<open>
  The endings of the \<^verbatim>\<open>try\<close> block on a fresh result: a success; an early return with a
  message and no mesh data; or an exception that leaves the result without success and
  with both counts zero, and with empty arrays unless the exception is \<^verbatim>\<open>std::bad_alloc\<close>
  and the memory is not one in which every allocation succeeds (\<open>full\<close>).
\<close>

definition ended_well :: "bool \<Rightarrow> 'f OpenSCADRenderResult ending \<Rightarrow> bool" where
  "ended_well full e =
     (case e of
        Done r \<Rightarrow>
          success r \<or>
          (error_message r \<noteq> [] \<and> positions r = [] \<and> normals r = [] \<and> indices r = []
           \<and> vertex_count r = 0 \<and> triangle_count r = 0)
      | Thrown x r \<Rightarrow>
          \<not> success r \<and> vertex_count r = 0 \<and> triangle_count r = 0
          \<and> (positions r = [] \<and> normals r = [] \<and> indices r = [] \<or> x = bad_alloc \<and> \<not> full)
      | Undefined \<Rightarrow> False)"

text \<open>
  The memory in which every allocation succeeds, and the memory in which exactly the
  allocation at one site fails.
\<close>

definition unbounded :: memory where
  "unbounded = (\<lambda>s. True)"

definition failing_at :: "site \<Rightarrow> memory" where
  "failing_at x = (\<lambda>s. s \<noteq> x)"

text \<open>The quadrangle of \<open>quad_mesh\<close> cut into two triangles.\<close>

definition two_triangles :: "real PolySet" where
  "two_triangles =
     \<lparr>ps_vertices = [(0, 0, 0), (1, 0, 0), (1, 1, 0), (0, 1, 0)],
      ps_indices = [[0, 1, 2], [0, 2, 3]]\<rparr>"

text \<open>
  An engine during whose conversion to a polygon set and whose tessellation cancellation
  is requested as \<open>b1\<close> and \<open>b2\<close> say, and which is otherwise \<open>eng\<close>.
\<close>

definition with_late_cancel ::
  "('geom \<Rightarrow> bool) \<Rightarrow> ('d PolySet \<Rightarrow> bool) \<Rightarrow> ('sf, 'node, 'geom, 'd) engine
     \<Rightarrow> ('sf, 'node, 'geom, 'd) engine" where
  "with_late_cancel b1 b2 eng =
     eng\<lparr>getGeometryAsPolySet := (\<lambda>g. (getGeometryAsPolySet eng g)\<lparr>cancel_req := b1 g\<rparr>),
         tessellate_faces := (\<lambda>p. (tessellate_faces eng p)\<lparr>cancel_req := b2 p\<rparr>)\<rparr>"

text \<open>
  What the specification asks of a fault: the message \<open>Exception: \<close> with the description
  when there is one and an unknown-exception message otherwise, in a failed result with
  the captured console text and no mesh data.
\<close>

definition spec_fault_message :: "exn \<Rightarrow> string" where
  "spec_fault_message e =
     (case e of StdException what \<Rightarrow> ''Exception: '' @ what
      | OtherException \<Rightarrow> ''Unknown exception during render'')"

definition spec_fault_result :: "exn \<Rightarrow> string \<Rightarrow> 'f OpenSCADRenderResult" where
  "spec_fault_result e captured =
     \<lparr>success = False, error_message = spec_fault_message e, console_output = captured,
      positions = [], normals = [], indices = [], vertex_count = 0, triangle_count = 0\<rparr>"

text \<open>
  A mesh with 1431655767 vertices, all at the origin but vertex 1 and the last one, and
  one face on the vertices 0, 1 and 1431655766. Three times its vertex count is
  4294967301, which is more than \<open>2 ^ 32\<close>.
\<close>

definition huge_mesh :: "real PolySet" where
  "huge_mesh =
     \<lparr>ps_vertices = [(0, 0, 0), (0, 1, 0)] @ replicate 1431655764 (0, 0, 0) @ [(1, 0, 0)],
      ps_indices = [[0, 1, 1431655766]]\<rparr>"


section \<open>Mesh extraction: auxiliary facts\<close>

lemma copy_vertices_eq:
  "copy_vertices fp vs pn =
     (fst pn @ concat (map (\<lambda>v. [to_float fp (vx v), to_float fp (vy v), to_float fp (vz v)]) vs),
      snd pn @ replicate (3 * length vs) (f_zero fp))"
proof (induction vs arbitrary: pn)
  case Nil
  then show ?case by simp
next
  case (Cons v vs)
  have "replicate (3 * Suc (length vs)) (f_zero fp) = [f_zero fp, f_zero fp, f_zero fp] @ replicate (3 * length vs) (f_zero fp)"
    by (simp add: numeral_3_eq_3)
  with Cons show ?case by simp
qed

lemma unat_slot_le:
  fixes idx k :: "32 word"
  shows "unat (idx * 3 + k) \<le> unat idx * 3 + unat k"
proof -
  have "unat (idx * 3 + k) = (unat (idx * 3) + unat k) mod 2 ^ 32"
    by (simp add: unat_word_ariths)
  also have "\<dots> \<le> unat (idx * 3) + unat k"
    by (rule mod_less_eq_dividend)
  also have "unat (idx * 3) = (unat idx * 3) mod 2 ^ 32"
    by (simp add: unat_word_ariths)
  also have "(unat idx * 3) mod 2 ^ 32 + unat k \<le> unat idx * 3 + unat k"
    by simp
  finally show ?thesis by simp
qed

lemma slot_in_range:
  fixes idx k :: "32 word"
  assumes "unat idx < vertexCount" and "unat k < 3"
  shows "unat (idx * 3 + k) < 3 * vertexCount"
  using unat_slot_le [of idx k] assms by linarith

lemma add_at_Some:
  "i < length xs \<Longrightarrow> \<exists>ys. add_at fp xs i v = Some ys \<and> length ys = length xs"
  by (simp add: add_at_def)

lemma accumulate_Some:
  assumes "unat idx < vertexCount" and "3 * vertexCount \<le> length ns"
  shows "\<exists>ns'. accumulate fp ns idx n = Some ns' \<and> length ns' = length ns"
proof -
  have r: "unat (idx * 3 + 0) < length ns" "unat (idx * 3 + 1) < length ns" "unat (idx * 3 + 2) < length ns"
    using slot_in_range [OF assms(1), of 0] slot_in_range [OF assms(1), of 1]
      slot_in_range [OF assms(1), of 2] assms(2) by simp_all
  show ?thesis
    unfolding accumulate_def using r by (simp add: add_at_def)
qed

lemma take_three: "3 \<le> length xs \<Longrightarrow> take 3 xs = [xs ! 0, xs ! 1, xs ! 2]"
  by (auto simp: numeral_3_eq_3 Suc_le_length_iff)

lemma face_step_short: "length face < 3 \<Longrightarrow> face_step fp vs vertexCount st face = Some st"
  by (simp add: face_step_def)

lemma face_step_unguarded:
  assumes "3 \<le> length face"
    and "\<not> (unat (word_of_int (face ! 0) :: 32 word) < vertexCount
           \<and> unat (word_of_int (face ! 1) :: 32 word) < vertexCount
           \<and> unat (word_of_int (face ! 2) :: 32 word) < vertexCount)"
  shows "face_step fp vs vertexCount st face =
           Some (fst st, snd st @ [word_of_int (face ! 0), word_of_int (face ! 1), word_of_int (face ! 2)])"
  using assms unfolding face_step_def Let_def by (auto simp del: One_nat_def)

lemma face_step_Some:
  assumes vs: "vertexCount \<le> length vs" and ns: "3 * vertexCount \<le> length (fst st)"
  shows "\<exists>ns'. face_step fp vs vertexCount st face = Some (ns', snd st @ spec_triangle face)
           \<and> length ns' = length (fst st)"
proof (cases "length face < 3")
  case True
  then show ?thesis by (cases st) (simp add: face_step_def spec_triangle_def)
next
  case long: False
  define i0 :: "32 word" where "i0 = word_of_int (face ! 0)"
  define i1 :: "32 word" where "i1 = word_of_int (face ! 1)"
  define i2 :: "32 word" where "i2 = word_of_int (face ! 2)"
  have tri: "spec_triangle face = [i0, i1, i2]"
    using long by (simp add: spec_triangle_def take_three i0_def i1_def i2_def)
  show ?thesis
  proof (cases "unat i0 < vertexCount \<and> unat i1 < vertexCount \<and> unat i2 < vertexCount")
    case False
    then show ?thesis
      using long tri face_step_unguarded [of face vertexCount fp vs st]
      by (simp add: i0_def i1_def i2_def)
  next
    case True
    then have r: "unat i0 < length vs" "unat i1 < length vs" "unat i2 < length vs"
      using vs by simp_all
    define normal where "normal = cross3 fp (vsub fp (vs ! unat i1) (vs ! unat i0)) (vsub fp (vs ! unat i2) (vs ! unat i0))"
    define n where "n = vdiv fp normal (norm3 fp normal)"
    from True ns obtain ns0 where a0: "accumulate fp (fst st) i0 n = Some ns0" and l0: "length ns0 = length (fst st)"
      using accumulate_Some [of i0 vertexCount "fst st" fp n] by auto
    from True ns l0 obtain ns1 where a1: "accumulate fp ns0 i1 n = Some ns1" and l1: "length ns1 = length (fst st)"
      using accumulate_Some [of i1 vertexCount ns0 fp n] by auto
    from True ns l1 obtain ns2 where a2: "accumulate fp ns1 i2 n = Some ns2" and l2: "length ns2 = length (fst st)"
      using accumulate_Some [of i2 vertexCount ns1 fp n] by auto
    show ?thesis
    proof (cases "d_pos fp (norm3 fp normal)")
      case True
      then have "face_step fp vs vertexCount st face = Some (ns2, snd st @ [i0, i1, i2])"
        using long \<open>unat i0 < vertexCount \<and> unat i1 < vertexCount \<and> unat i2 < vertexCount\<close> r a0 a1 a2
        unfolding face_step_def Let_def i0_def [symmetric] i1_def [symmetric] i2_def [symmetric]
        by (simp add: vec_at_def normal_def [symmetric] n_def [symmetric] del: One_nat_def)
      then show ?thesis using tri l2 by simp
    next
      case False
      then have "face_step fp vs vertexCount st face = Some (fst st, snd st @ [i0, i1, i2])"
        using long \<open>unat i0 < vertexCount \<and> unat i1 < vertexCount \<and> unat i2 < vertexCount\<close> r
        unfolding face_step_def Let_def i0_def [symmetric] i1_def [symmetric] i2_def [symmetric]
        by (simp add: vec_at_def normal_def [symmetric] del: One_nat_def)
      then show ?thesis using tri by simp
    qed
  qed
qed

lemma face_loop_Some:
  assumes "vertexCount \<le> length vs" and "3 * vertexCount \<le> length (fst st)"
  shows "\<exists>ns'. face_loop fp vs vertexCount faces st = Some (ns', snd st @ concat (map spec_triangle faces))
           \<and> length ns' = length (fst st)"
  using assms
proof (induction faces arbitrary: st)
  case Nil
  then show ?case by (cases st) simp
next
  case (Cons face faces)
  from face_step_Some [OF Cons.prems, of fp face]
  obtain ns1 where s: "face_step fp vs vertexCount st face = Some (ns1, snd st @ spec_triangle face)"
    and l: "length ns1 = length (fst st)" by blast
  from Cons.IH [of "(ns1, snd st @ spec_triangle face)"] Cons.prems l
  obtain ns' where "face_loop fp vs vertexCount faces (ns1, snd st @ spec_triangle face)
       = Some (ns', (snd st @ spec_triangle face) @ concat (map spec_triangle faces))"
    and "length ns' = length ns1" by auto
  with s l show ?case by simp
qed

lemma normalize_at_Some:
  assumes "i * 3 + 2 < length ns"
  shows "\<exists>ns'. normalize_at fp ns i = Some ns' \<and> length ns' = length ns"
  using assms unfolding normalize_at_def Let_def vec_at_def vec_put_def by simp

lemma normalize_loop_Some:
  assumes "\<forall>i \<in> set js. i * 3 + 2 < length ns"
  shows "\<exists>ns'. normalize_loop fp js ns = Some ns' \<and> length ns' = length ns"
  using assms
proof (induction js arbitrary: ns)
  case Nil
  then show ?case by simp
next
  case (Cons j js)
  then obtain ns1 where s: "normalize_at fp ns j = Some ns1" and l: "length ns1 = length ns"
    using normalize_at_Some [of j ns fp] by auto
  with Cons.IH [of ns1] Cons.prems show ?case by simp
qed

lemma fill_mesh_Some:
  "\<exists>r. fill_mesh fp ps result = Some r
      \<and> positions r = positions result
            @ concat (map (\<lambda>v. [to_float fp (vx v), to_float fp (vy v), to_float fp (vz v)]) (ps_vertices ps))
      \<and> length (normals r) = length (normals result) + 3 * length (ps_vertices ps)
      \<and> indices r = indices result @ concat (map spec_triangle (ps_indices ps))
      \<and> vertex_count r = length (ps_vertices ps)
      \<and> triangle_count r = length (indices r) div 3
      \<and> success r = success result
      \<and> error_message r = error_message result
      \<and> console_output r = console_output result"
proof -
  let ?vs = "ps_vertices ps"
  let ?n = "length ?vs"
  let ?ns0 = "normals result @ replicate (3 * ?n) (f_zero fp)"
  have pn: "copy_vertices fp ?vs (positions result, normals result) =
      (positions result @ concat (map (\<lambda>v. [to_float fp (vx v), to_float fp (vy v), to_float fp (vz v)]) ?vs), ?ns0)"
    by (simp add: copy_vertices_eq)
  obtain ns1 where fl: "face_loop fp ?vs ?n (ps_indices ps) (?ns0, indices result)
        = Some (ns1, indices result @ concat (map spec_triangle (ps_indices ps)))"
    and l1: "length ns1 = length ?ns0"
    using face_loop_Some [of ?n ?vs "(?ns0, indices result)" fp "ps_indices ps"] by auto
  have "\<forall>i \<in> set [0..<?n]. i * 3 + 2 < length ns1"
    using l1 by auto
  then obtain ns2 where nl: "normalize_loop fp [0..<?n] ns1 = Some ns2" and l2: "length ns2 = length ns1"
    using normalize_loop_Some [of "[0..<?n]" ns1 fp] by auto
  show ?thesis
    unfolding fill_mesh_def Let_def pn using fl nl l1 l2 by simp
qed

lemma unat_word_of_int_le:
  assumes "0 \<le> e"
  shows "unat (word_of_int e :: 32 word) \<le> nat e"
proof -
  have "uint (word_of_int e :: 32 word) = e mod 2 ^ 32"
    by (simp add: uint_word_of_int)
  also have "\<dots> \<le> e" using assms by (rule zmod_le_nonneg_dividend)
  finally have "nat (uint (word_of_int e :: 32 word)) \<le> nat e"
    by (rule nat_mono)
  then show ?thesis by (simp only: unat_eq_nat_uint)
qed

lemma spec_triangle_valid:
  assumes "valid_face vertexCount face" and "i \<in> set (spec_triangle face)"
  shows "unat i < vertexCount"
proof -
  from assms(2) have long: "\<not> length face < 3" and "i \<in> word_of_int ` set (take 3 face)"
    by (auto simp: spec_triangle_def split: if_splits)
  then obtain e where e: "e \<in> set (take 3 face)" and i: "i = word_of_int e" by blast
  from assms(1) long e have "0 \<le> e" "e < int vertexCount"
    by (auto simp: valid_face_def list_all_iff)
  with unat_word_of_int_le [of e] show ?thesis unfolding i by linarith
qed

lemma fill_mesh_new:
  "\<exists>r. fill_mesh fp ps new_result = Some r
      \<and> positions r
          = concat (map (\<lambda>v. [to_float fp (vx v), to_float fp (vy v), to_float fp (vz v)]) (ps_vertices ps))
      \<and> length (normals r) = 3 * length (ps_vertices ps)
      \<and> indices r = concat (map spec_triangle (ps_indices ps))
      \<and> vertex_count r = length (ps_vertices ps)
      \<and> triangle_count r = length (indices r) div 3
      \<and> \<not> success r \<and> error_message r = [] \<and> console_output r = []"
  using fill_mesh_Some [of fp ps new_result] by (simp add: new_result_def)

lemma fresh_result: "new_result\<lparr>success := False, vertex_count := 0, triangle_count := 0\<rparr> = new_result"
  by (simp add: new_result_def)

lemma new_result_fields:
  "\<not> success new_result" "error_message new_result = []" "console_output new_result = []"
  "positions new_result = []" "normals new_result = []" "indices new_result = []"
  "vertex_count new_result = 0" "triangle_count new_result = 0"
  by (simp_all add: new_result_def)

text \<open>
  The loops with the allocations against the loops without: they end alike when no
  allocation fails; whatever the memory, they never end in an access out of range, and an
  exception of theirs is \<^verbatim>\<open>std::bad_alloc\<close> and leaves the other fields of the result alone.
\<close>

lemma push_indices_all:
  "\<forall>n. mem (PushIndex n) \<Longrightarrow> push_indices mem is out = (out @ is, True)"
  by (induction "is" arbitrary: out) simp_all

lemma push_indices_ok:
  "push_indices mem is out = (out', True) \<Longrightarrow> out' = out @ is"
  by (induction "is" arbitrary: out) (force split: if_splits)+

lemma face_loop_alloc_unbounded:
  assumes "\<forall>s. mem s"
  shows "face_loop_alloc mem fp vs vertexCount faces st
           = (case face_loop fp vs vertexCount faces st of Some st' \<Rightarrow> Done st' | None \<Rightarrow> Undefined)"
proof (induction faces arbitrary: st)
  case Nil
  show ?case by simp
next
  case (Cons face faces)
  have p: "push_indices mem is out = (out @ is, True)" for "is" out
    using assms by (simp add: push_indices_all)
  show ?case
    by (cases "face_step fp vs vertexCount st face") (simp_all add: p Cons.IH)
qed

lemma face_loop_alloc_cases:
  assumes "vertexCount \<le> length vs" and "3 * vertexCount \<le> length (fst st)"
  shows "case face_loop_alloc mem fp vs vertexCount faces st of
           Done st' \<Rightarrow> face_loop fp vs vertexCount faces st = Some st'
         | Thrown e st' \<Rightarrow> e = bad_alloc \<and> length (fst st') = length (fst st)
         | Undefined \<Rightarrow> False"
  using assms
proof (induction faces arbitrary: st)
  case Nil
  show ?case by simp
next
  case (Cons face faces)
  let ?is = "if length face < 3 then []
             else [word_of_int (face ! 0), word_of_int (face ! 1), word_of_int (face ! 2) :: 32 word]"
  obtain out b where p: "push_indices mem ?is (snd st) = (out, b)"
    by (cases "push_indices mem ?is (snd st)")
  show ?case
  proof (cases b)
    case False
    with p show ?thesis by simp
  next
    case True
    from face_step_Some [OF Cons.prems, of fp face] obtain ns1 where
      s: "face_step fp vs vertexCount st face = Some (ns1, snd st @ spec_triangle face)"
      and l: "length ns1 = length (fst st)"
      by (cases st) auto
    from Cons.IH [of "(ns1, snd st @ spec_triangle face)"] Cons.prems l
    have "case face_loop_alloc mem fp vs vertexCount faces (ns1, snd st @ spec_triangle face) of
           Done st' \<Rightarrow> face_loop fp vs vertexCount faces (ns1, snd st @ spec_triangle face) = Some st'
         | Thrown e st' \<Rightarrow> e = bad_alloc \<and> length (fst st') = length ns1
         | Undefined \<Rightarrow> False"
      by (auto split: ending.splits)
    with p True s l show ?thesis
      by (auto split: ending.splits)
  qed
qed

lemma fill_mesh_alloc_cases:
  "case fill_mesh_alloc mem fp ps result of
     Done r \<Rightarrow> fill_mesh fp ps result = Some r
   | Thrown e r \<Rightarrow>
       e = bad_alloc \<and> success r = success result \<and> error_message r = error_message result
       \<and> console_output r = console_output result \<and> vertex_count r = vertex_count result
       \<and> triangle_count r = triangle_count result
   | Undefined \<Rightarrow> False"
proof -
  let ?vs = "ps_vertices ps"
  let ?n = "length ?vs"
  let ?pn = "copy_vertices fp ?vs (positions result, normals result)"
  let ?st = "(snd ?pn, indices result)"
  have b: "3 * ?n \<le> length (fst ?st)" by (simp add: copy_vertices_eq)
  note fl = face_loop_alloc_cases [OF le_refl b, where mem = mem and fp = fp and faces = "ps_indices ps"]
  show ?thesis
  proof (cases "mem ReservePositions \<and> mem ReserveNormals")
    case False
    then show ?thesis by (auto simp: fill_mesh_alloc_def Let_def)
  next
    case True
    show ?thesis
    proof (cases "face_loop_alloc mem fp ?vs ?n (ps_indices ps) ?st")
      case Undefined
      with fl show ?thesis by simp
    next
      case (Thrown e st')
      with fl True show ?thesis by (simp add: fill_mesh_alloc_def Let_def)
    next
      case (Done st')
      with fl have f: "face_loop fp ?vs ?n (ps_indices ps) ?st = Some st'" by simp
      from face_loop_Some [OF le_refl b, of fp "ps_indices ps"] f
      have "length (fst st') = length (fst ?st)" by auto
      with b have "\<forall>i \<in> set [0..<?n]. i * 3 + 2 < length (fst st')" by auto
      then obtain ns2 where nl: "normalize_loop fp [0..<?n] (fst st') = Some ns2"
        using normalize_loop_Some [of "[0..<?n]" "fst st'" fp] by auto
      show ?thesis
        using True Done f nl by (simp add: fill_mesh_alloc_def fill_mesh_def Let_def)
    qed
  qed
qed

lemma fill_mesh_alloc_unbounded:
  assumes "\<forall>s. mem s"
  shows "\<exists>r. fill_mesh_alloc mem fp ps result = Done r \<and> fill_mesh fp ps result = Some r"
proof -
  obtain r where r: "fill_mesh fp ps result = Some r"
    using fill_mesh_Some [of fp ps result] by blast
  let ?vs = "ps_vertices ps"
  let ?pn = "copy_vertices fp ?vs (positions result, normals result)"
  obtain st where f: "face_loop fp ?vs (length ?vs) (ps_indices ps) (snd ?pn, indices result) = Some st"
    using r by (auto simp: fill_mesh_def Let_def split: bind_splits)
  have "face_loop_alloc mem fp ?vs (length ?vs) (ps_indices ps) (snd ?pn, indices result) = Done st"
    using face_loop_alloc_unbounded [OF assms, where fp = fp and vs = ?vs and vertexCount = "length ?vs"
        and faces = "ps_indices ps" and st = "(snd ?pn, indices result)"] f by simp
  then have "fill_mesh_alloc mem fp ps result = Done r"
    using assms r f by (auto simp: fill_mesh_alloc_def fill_mesh_def Let_def split: bind_splits option.splits)
  with r show ?thesis by simp
qed

lemma extractMeshData_defined: "fst (extractMeshData mem fp eng polyset result cw) \<noteq> Undefined"
proof -
  have "fill_mesh_alloc mem fp p result \<noteq> Undefined" for p
    using fill_mesh_alloc_cases [where mem = mem and fp = fp and ps = p and result = result]
    by (cases "fill_mesh_alloc mem fp p result") simp_all
  then show ?thesis
    by (simp add: extractMeshData_def Let_def split: sum.splits)
qed

lemma extractMeshData_unbounded:
  assumes "\<forall>s. mem s"
  shows "(isTriangular eng polyset \<longrightarrow>
            (\<exists>r. extractMeshData mem fp eng polyset result cw = (Done r, cw)
               \<and> fill_mesh fp polyset result = Some r))
       \<and> (\<not> isTriangular eng polyset \<and> outcome (tessellate_faces eng polyset) = Inr t \<longrightarrow>
            (\<exists>r. extractMeshData mem fp eng polyset result cw
                    = (Done r, observe (tessellate_faces eng polyset) cw)
               \<and> fill_mesh fp (case t of Some t' \<Rightarrow> t' | None \<Rightarrow> polyset) result = Some r))"
  using fill_mesh_alloc_unbounded [OF assms, where fp = fp and ps = polyset and result = result]
    fill_mesh_alloc_unbounded [OF assms, where fp = fp
      and ps = "case t of Some t' \<Rightarrow> t' | None \<Rightarrow> polyset" and result = result]
  by (auto simp: extractMeshData_def Let_def)


lemma push_indices_take:
  "push_indices mem is out = (out', b) \<Longrightarrow> \<exists>k\<le>length is. out' = out @ take k is"
proof (induction "is" arbitrary: out)
  case Nil
  then show ?case by simp
next
  case (Cons i "is")
  show ?case
  proof (cases "mem (PushIndex (length out))")
    case False
    with Cons.prems have "out' = out @ take 0 (i # is)" by simp
    then show ?thesis by blast
  next
    case True
    with Cons.prems have "push_indices mem is (out @ [i]) = (out', b)" by simp
    from Cons.IH [OF this] obtain k where "k \<le> length is" and "out' = (out @ [i]) @ take k is"
      by blast
    then have "Suc k \<le> length (i # is)" and "out' = out @ take (Suc k) (i # is)" by simp_all
    then show ?thesis by blast
  qed
qed

lemma spec_triangle_entries:
  "spec_triangle face =
     (if length face < 3 then []
      else [word_of_int (face ! 0), word_of_int (face ! 1), word_of_int (face ! 2)])"
  by (simp add: spec_triangle_def take_three del: One_nat_def)

lemma face_loop_alloc_take:
  assumes "vertexCount \<le> length vs" and "3 * vertexCount \<le> length (fst st)"
    and "face_loop_alloc mem fp vs vertexCount faces st = Thrown e st'"
  shows "\<exists>k. snd st' = snd st @ take k (concat (map spec_triangle faces))"
  using assms
proof (induction faces arbitrary: st)
  case Nil
  then show ?case by simp
next
  case (Cons face faces)
  obtain out b where p: "push_indices mem (spec_triangle face) (snd st) = (out, b)"
    by (cases "push_indices mem (spec_triangle face) (snd st)")
  from push_indices_take [OF p] obtain k where k: "k \<le> length (spec_triangle face)"
    and out: "out = snd st @ take k (spec_triangle face)" by blast
  have p': "push_indices mem
             (if length face < 3 then []
              else [word_of_int (face ! 0), word_of_int (face ! 1), word_of_int (face ! 2)])
             (snd st) = (out, b)"
    using p by (simp only: spec_triangle_entries)
  show ?case
  proof (cases b)
    case False
    with p' Cons.prems(3) have "st' = (fst st, out)" by (simp del: One_nat_def)
    with out k have "snd st' = snd st @ take k (concat (map spec_triangle (face # faces)))"
      by simp
    then show ?thesis by blast
  next
    case True
    from face_step_Some [OF Cons.prems(1,2), of fp face] obtain ns1 where
      s: "face_step fp vs vertexCount st face = Some (ns1, snd st @ spec_triangle face)"
      and l: "length ns1 = length (fst st)"
      by (cases st) auto
    from p' True s Cons.prems(3)
    have "face_loop_alloc mem fp vs vertexCount faces (ns1, snd st @ spec_triangle face) = Thrown e st'"
      by (simp del: One_nat_def)
    from Cons.IH [OF Cons.prems(1) _ this] Cons.prems(2) l
    obtain j where "snd st' = (snd st @ spec_triangle face) @ take j (concat (map spec_triangle faces))"
      by auto
    then have "snd st' = snd st
        @ take (length (spec_triangle face) + j) (concat (map spec_triangle (face # faces)))"
      by simp
    then show ?thesis by blast
  qed
qed

lemma fill_mesh_alloc_new:
  "case fill_mesh_alloc mem fp ps new_result of
     Done r \<Rightarrow>
       indices r = concat (map spec_triangle (ps_indices ps))
       \<and> triangle_count r = length (indices r) div 3
   | Thrown e r \<Rightarrow>
       e = bad_alloc \<and> (\<exists>k. indices r = take k (concat (map spec_triangle (ps_indices ps))))
   | Undefined \<Rightarrow> False"
proof (cases "fill_mesh_alloc mem fp ps new_result")
  case (Done r)
  with fill_mesh_alloc_cases [where mem = mem and fp = fp and ps = ps and result = new_result]
  have "fill_mesh fp ps new_result = Some r" by simp
  with fill_mesh_new [of fp ps] Done show ?thesis by auto
next
  case (Thrown e r)
  with fill_mesh_alloc_cases [where mem = mem and fp = fp and ps = ps and result = new_result]
  have e: "e = bad_alloc" by simp
  let ?vs = "ps_vertices ps"
  let ?pn = "copy_vertices fp ?vs ([], [])"
  have "\<exists>k. indices r = take k (concat (map spec_triangle (ps_indices ps)))"
  proof (cases "mem ReservePositions \<and> mem ReserveNormals")
    case False
    with Thrown have "indices r = take 0 (concat (map spec_triangle (ps_indices ps)))"
      by (auto simp: fill_mesh_alloc_def Let_def new_result_def split: if_splits)
    then show ?thesis by blast
  next
    case True
    with Thrown obtain st' where
      f: "face_loop_alloc mem fp ?vs (length ?vs) (ps_indices ps) (snd ?pn, []) = Thrown e st'"
      and i: "indices r = snd st'"
      by (auto simp: fill_mesh_alloc_def Let_def new_result_def split: ending.splits option.splits)
    have b: "3 * length ?vs \<le> length (fst (snd ?pn, [] :: 32 word list))"
      by (simp add: copy_vertices_eq)
    from face_loop_alloc_take [OF le_refl b f] i show ?thesis by simp
  qed
  with e Thrown show ?thesis by simp
next
  case Undefined
  with fill_mesh_alloc_cases [where mem = mem and fp = fp and ps = ps and result = new_result]
  show ?thesis by simp
qed


section \<open>Mesh extraction: the claims\<close>

text \<open>
  Claim C6. The faces are those of the mesh that \<^verbatim>\<open>extractMeshData\<close> selects at lines 87 to
  98: the mesh it is given when that is triangular or when \<^verbatim>\<open>tessellate_faces\<close> returns
  nothing, and the mesh that \<^verbatim>\<open>tessellate_faces\<close> returns otherwise. When no allocation
  fails, \<^verbatim>\<open>extractMeshData\<close> on a fresh result ends normally and the indices it leaves are
  the concatenation of \<open>spec_triangle face\<close> over the faces of the selected mesh, in
  order: nothing for a face with fewer than three entries, and exactly the first three
  entries of every other face, whatever its length; the loops themselves cut no face into
  triangles. Whatever the memory, \<^verbatim>\<open>extractMeshData\<close> ends normally with these indices, or
  a \<^verbatim>\<open>push_back\<close> or \<^verbatim>\<open>reserve\<close> has thrown \<^verbatim>\<open>std::bad_alloc\<close> and the indices are the part of
  them pushed so far. On a face with fewer than three entries the body of the face loop
  returns the normals and the indices as they were, and that is not an error.
\<close>

theorem extract_indices_first_three:
  "((\<forall>s. mem s) \<longrightarrow>
       (isTriangular eng polyset \<longrightarrow>
            (\<exists>r. extractMeshData mem fp eng polyset new_result cw = (Done r, cw)
               \<and> indices r = concat (map spec_triangle (ps_indices polyset))
               \<and> triangle_count r = length (indices r) div 3))
       \<and> (\<not> isTriangular eng polyset
            \<and> outcome (tessellate_faces eng polyset) = Inr (Some triangulated) \<longrightarrow>
            (\<exists>r. extractMeshData mem fp eng polyset new_result cw
                    = (Done r, observe (tessellate_faces eng polyset) cw)
               \<and> indices r = concat (map spec_triangle (ps_indices triangulated))
               \<and> triangle_count r = length (indices r) div 3))
       \<and> (\<not> isTriangular eng polyset \<and> outcome (tessellate_faces eng polyset) = Inr None \<longrightarrow>
            (\<exists>r. extractMeshData mem fp eng polyset new_result cw
                    = (Done r, observe (tessellate_faces eng polyset) cw)
               \<and> indices r = concat (map spec_triangle (ps_indices polyset))
               \<and> triangle_count r = length (indices r) div 3)))
   \<and> (isTriangular eng polyset \<and> selected = polyset
        \<or> \<not> isTriangular eng polyset \<and> outcome (tessellate_faces eng polyset) = Inr None
            \<and> selected = polyset
        \<or> \<not> isTriangular eng polyset
            \<and> outcome (tessellate_faces eng polyset) = Inr (Some selected) \<longrightarrow>
        (case fst (extractMeshData mem fp eng polyset new_result cw) of
           Done r \<Rightarrow>
             indices r = concat (map spec_triangle (ps_indices selected))
             \<and> triangle_count r = length (indices r) div 3
         | Thrown e r \<Rightarrow>
             e = bad_alloc
             \<and> (\<exists>k. indices r = take k (concat (map spec_triangle (ps_indices selected))))
         | Undefined \<Rightarrow> False))
   \<and> (\<exists>r. fill_mesh fp ps new_result = Some r
         \<and> indices r = concat (map spec_triangle (ps_indices ps))
         \<and> triangle_count r = length (indices r) div 3)
   \<and> (length face < 3 \<longrightarrow> face_step fp vs vertexCount st face = Some st)"
proof -
  have f: "\<exists>r. fill_mesh fp p new_result = Some r
             \<and> indices r = concat (map spec_triangle (ps_indices p))
             \<and> triangle_count r = length (indices r) div 3" for p
    using fill_mesh_new [of fp p] by auto
  have a: "isTriangular eng polyset \<longrightarrow>
            (\<exists>r. extractMeshData mem fp eng polyset new_result cw = (Done r, cw)
               \<and> indices r = concat (map spec_triangle (ps_indices polyset))
               \<and> triangle_count r = length (indices r) div 3)"
    if "\<forall>s. mem s"
    using extractMeshData_unbounded [OF that, where eng = eng and polyset = polyset and fp = fp
        and result = new_result and cw = cw] f [of polyset]
    by auto
  have b: "\<not> isTriangular eng polyset \<and> outcome (tessellate_faces eng polyset) = Inr t \<longrightarrow>
            (\<exists>r. extractMeshData mem fp eng polyset new_result cw
                    = (Done r, observe (tessellate_faces eng polyset) cw)
               \<and> indices r = concat (map spec_triangle
                                        (ps_indices (case t of Some t' \<Rightarrow> t' | None \<Rightarrow> polyset)))
               \<and> triangle_count r = length (indices r) div 3)"
    if "\<forall>s. mem s" for t
    using extractMeshData_unbounded [OF that, where eng = eng and polyset = polyset and t = t
        and fp = fp and result = new_result and cw = cw]
      f [of "case t of Some t' \<Rightarrow> t' | None \<Rightarrow> polyset"]
    by auto
  have g: "case fst (extractMeshData mem fp eng polyset new_result cw) of
           Done r \<Rightarrow>
             indices r = concat (map spec_triangle (ps_indices selected))
             \<and> triangle_count r = length (indices r) div 3
         | Thrown e r \<Rightarrow>
             e = bad_alloc
             \<and> (\<exists>k. indices r = take k (concat (map spec_triangle (ps_indices selected))))
         | Undefined \<Rightarrow> False"
    if "isTriangular eng polyset \<and> selected = polyset
        \<or> \<not> isTriangular eng polyset \<and> outcome (tessellate_faces eng polyset) = Inr None
            \<and> selected = polyset
        \<or> \<not> isTriangular eng polyset
            \<and> outcome (tessellate_faces eng polyset) = Inr (Some selected)"
  proof -
    from that have "fst (extractMeshData mem fp eng polyset new_result cw)
                      = fill_mesh_alloc mem fp selected new_result"
      by (auto simp: extractMeshData_def Let_def)
    with fill_mesh_alloc_new [where mem = mem and fp = fp and ps = selected] show ?thesis
      by simp
  qed
  have first: "(\<forall>s. mem s) \<longrightarrow>
       (isTriangular eng polyset \<longrightarrow>
            (\<exists>r. extractMeshData mem fp eng polyset new_result cw = (Done r, cw)
               \<and> indices r = concat (map spec_triangle (ps_indices polyset))
               \<and> triangle_count r = length (indices r) div 3))
       \<and> (\<not> isTriangular eng polyset
            \<and> outcome (tessellate_faces eng polyset) = Inr (Some triangulated) \<longrightarrow>
            (\<exists>r. extractMeshData mem fp eng polyset new_result cw
                    = (Done r, observe (tessellate_faces eng polyset) cw)
               \<and> indices r = concat (map spec_triangle (ps_indices triangulated))
               \<and> triangle_count r = length (indices r) div 3))
       \<and> (\<not> isTriangular eng polyset \<and> outcome (tessellate_faces eng polyset) = Inr None \<longrightarrow>
            (\<exists>r. extractMeshData mem fp eng polyset new_result cw
                    = (Done r, observe (tessellate_faces eng polyset) cw)
               \<and> indices r = concat (map spec_triangle (ps_indices polyset))
               \<and> triangle_count r = length (indices r) div 3))"
    using a b [of "Some triangulated"] b [of None] by simp
  have short: "length face < 3 \<longrightarrow> face_step fp vs vertexCount st face = Some st"
    by (simp add: face_step_short)
  from first g f [of ps] short show ?thesis by blast
qed

theorem extract_indices_first_three_witness:
  "(\<exists>r. extractMeshData unbounded exact_ops
           (scripted (quiet ()) (quiet (True, Some ())) (quiet (Some ())) (quiet (Some ()))
              (quiet (Some quad_mesh)) (printing ''t'' (quiet (Some two_triangles))))
           quad_mesh new_result (''abc'', \<lparr>g_initialized = True, g_cancelled = False\<rparr>)
         = (Done r, ''abct'', \<lparr>g_initialized = True, g_cancelled = False\<rparr>)
       \<and> indices r = [0, 1, 2, 0, 2, 3] \<and> triangle_count r = 2)
   \<and> (\<exists>r. extractMeshData unbounded exact_ops
           (scripted (quiet ()) (quiet (True, Some ())) (quiet (Some ())) (quiet (Some ()))
              (quiet (Some quad_mesh)) (printing ''t'' (quiet None)))
           quad_mesh new_result (''abc'', \<lparr>g_initialized = True, g_cancelled = False\<rparr>)
         = (Done r, ''abct'', \<lparr>g_initialized = True, g_cancelled = False\<rparr>)
       \<and> indices r = [0, 1, 2] \<and> triangle_count r = 1)
   \<and> (\<exists>r. extractMeshData unbounded exact_ops plain_engine
           \<lparr>ps_vertices = [(0, 0, 0)], ps_indices = [[0, 0], [0, 0, 0], []]\<rparr> new_result
           (''abc'', \<lparr>g_initialized = True, g_cancelled = False\<rparr>)
         = (Done r, ''abc'', \<lparr>g_initialized = True, g_cancelled = False\<rparr>)
       \<and> indices r = [0, 0, 0] \<and> triangle_count r = 1)
   \<and> (case fst (extractMeshData (failing_at (PushIndex 4)) exact_ops
                   (scripted (quiet ()) (quiet (True, Some ())) (quiet (Some ())) (quiet (Some ()))
                      (quiet (Some quad_mesh)) (printing ''t'' (quiet (Some two_triangles))))
                   quad_mesh new_result (''abc'', \<lparr>g_initialized = True, g_cancelled = False\<rparr>)) of
         Done r \<Rightarrow> indices r = [0, 1, 2, 0, 2, 3] \<and> triangle_count r = length (indices r) div 3
       | Thrown e r \<Rightarrow> e = bad_alloc \<and> (\<exists>k. indices r = take k [0, 1, 2, 0, 2, 3])
       | Undefined \<Rightarrow> False)
   \<and> face_step exact_ops [(0, 0, 0)] 1 ([0, 0, 0], []) [0, 0] = Some ([0, 0, 0], [])"
proof -
  have m: "\<forall>s. unbounded s" by (simp add: unbounded_def)
  let ?cw = "(''abc'', \<lparr>g_initialized = True, g_cancelled = False\<rparr>)"
  let ?e1 = "scripted (quiet ()) (quiet (True, Some ())) (quiet (Some ())) (quiet (Some ()))
              (quiet (Some quad_mesh)) (printing ''t'' (quiet (Some two_triangles)))"
  let ?e2 = "scripted (quiet ()) (quiet (True, Some ())) (quiet (Some ())) (quiet (Some ()))
              (quiet (Some quad_mesh)) (printing ''t'' (quiet None))"
  let ?p3 = "\<lparr>ps_vertices = [(0::real, 0::real, 0::real)], ps_indices = [[0, 0], [0, 0, 0], []]\<rparr>"
  from extract_indices_first_three [where mem = unbounded and eng = ?e1 and polyset = quad_mesh
      and fp = exact_ops
      and cw = ?cw and triangulated = two_triangles and ps = quad_mesh and face = "[0, 0]"
      and vs = "[(0, 0, 0)]" and vertexCount = 1 and st = "([0, 0, 0], [])"]
    extract_indices_first_three [where mem = unbounded and eng = ?e2 and polyset = quad_mesh
      and fp = exact_ops
      and cw = ?cw and triangulated = two_triangles and ps = quad_mesh and face = "[0, 0]"
      and vs = "[(0, 0, 0)]" and vertexCount = 1 and st = "([0, 0, 0], [])"]
    extract_indices_first_three [where mem = unbounded and eng = plain_engine and polyset = ?p3
      and fp = exact_ops
      and cw = ?cw and triangulated = two_triangles and ps = quad_mesh and face = "[0, 0]"
      and vs = "[(0, 0, 0)]" and vertexCount = 1 and st = "([0, 0, 0], [])"]
    m
  have three: "(\<exists>r. extractMeshData unbounded exact_ops ?e1 quad_mesh new_result ?cw
         = (Done r, ''abct'', \<lparr>g_initialized = True, g_cancelled = False\<rparr>)
       \<and> indices r = [0, 1, 2, 0, 2, 3] \<and> triangle_count r = 2)
   \<and> (\<exists>r. extractMeshData unbounded exact_ops ?e2 quad_mesh new_result ?cw
         = (Done r, ''abct'', \<lparr>g_initialized = True, g_cancelled = False\<rparr>)
       \<and> indices r = [0, 1, 2] \<and> triangle_count r = 1)
   \<and> (\<exists>r. extractMeshData unbounded exact_ops plain_engine ?p3 new_result ?cw
         = (Done r, ''abc'', \<lparr>g_initialized = True, g_cancelled = False\<rparr>)
       \<and> indices r = [0, 0, 0] \<and> triangle_count r = 1)
   \<and> face_step exact_ops [(0, 0, 0)] 1 ([0, 0, 0], []) [0, 0] = Some ([0, 0, 0], [])"
    by (simp add: scripted_def quiet_def printing_def plain_engine_def observe_def quad_mesh_def
        two_triangles_def spec_triangle_def) fastforce
  have sel: "\<not> isTriangular ?e1 quad_mesh
      \<and> outcome (tessellate_faces ?e1 quad_mesh) = Inr (Some two_triangles)"
    by (simp add: scripted_def quiet_def printing_def quad_mesh_def)
  have emitted: "concat (map spec_triangle (ps_indices two_triangles)) = [0, 1, 2, 0, 2, 3]"
    by (simp add: two_triangles_def spec_triangle_def)
  from extract_indices_first_three [where mem = "failing_at (PushIndex 4)" and eng = ?e1
      and polyset = quad_mesh and fp = exact_ops and cw = ?cw and selected = two_triangles] sel
  have "case fst (extractMeshData (failing_at (PushIndex 4)) exact_ops ?e1 quad_mesh new_result ?cw) of
         Done r \<Rightarrow> indices r = concat (map spec_triangle (ps_indices two_triangles))
           \<and> triangle_count r = length (indices r) div 3
       | Thrown e r \<Rightarrow> e = bad_alloc
           \<and> (\<exists>k. indices r = take k (concat (map spec_triangle (ps_indices two_triangles))))
       | Undefined \<Rightarrow> False"
    by blast
  then have part: "case fst (extractMeshData (failing_at (PushIndex 4)) exact_ops ?e1 quad_mesh new_result ?cw) of
         Done r \<Rightarrow> indices r = [0, 1, 2, 0, 2, 3] \<and> triangle_count r = length (indices r) div 3
       | Thrown e r \<Rightarrow> e = bad_alloc \<and> (\<exists>k. indices r = take k [0, 1, 2, 0, 2, 3])
       | Undefined \<Rightarrow> False"
    unfolding emitted .
  from three part show ?thesis by simp
qed

text \<open>
  Claim C1, as stated, fails: line 123 to 125 push the three entries of a face before line
  128 looks at their range. On a mesh with one vertex and the face \<open>[0, 1, 2]\<close> the
  result has \<open>vertex_count = 1\<close> and the indices \<open>0, 1, 2\<close>.
\<close>

theorem indices_in_range_counterexample:
  "map_option indices
     (fill_mesh exact_ops \<lparr>ps_vertices = [(0, 0, 0)], ps_indices = [[0, 1, 2]]\<rparr> new_result) = Some [0, 1, 2]
   \<and> map_option vertex_count
     (fill_mesh exact_ops \<lparr>ps_vertices = [(0, 0, 0)], ps_indices = [[0, 1, 2]]\<rparr> new_result) = Some 1
   \<and> \<not> list_all (\<lambda>i. unat i < 1) [0, 1, 2 :: 32 word]"
  using fill_mesh_new [of exact_ops "\<lparr>ps_vertices = [(0, 0, 0)], ps_indices = [[0, 1, 2]]\<rparr>"]
  by (auto simp: spec_triangle_def)

text \<open>
  Claim C1, amended. When the first three entries of every face with at least three
  entries are vertex indices of the mesh (\<open>0 \<le> e < vertexCount\<close>), every element of the
  indices array of the result is less than \<open>vertex_count\<close>. Entries out of that range are
  not filtered: they are emitted as they are.
\<close>

theorem indices_in_range_if_faces_valid:
  assumes "list_all (valid_face (length (ps_vertices ps))) (ps_indices ps)"
  shows "\<exists>r. fill_mesh fp ps new_result = Some r
           \<and> vertex_count r = length (ps_vertices ps)
           \<and> list_all (\<lambda>i. unat i < vertex_count r) (indices r)"
proof -
  from fill_mesh_new [of fp ps] obtain r where
    r: "fill_mesh fp ps new_result = Some r"
    and i: "indices r = concat (map spec_triangle (ps_indices ps))"
    and v: "vertex_count r = length (ps_vertices ps)"
    by blast
  have "unat i < length (ps_vertices ps)" if "i \<in> set (indices r)" for i
  proof -
    from that i obtain face where "face \<in> set (ps_indices ps)" and "i \<in> set (spec_triangle face)"
      by auto
    with assms show ?thesis
      using spec_triangle_valid [of "length (ps_vertices ps)" face i] by (simp add: list_all_iff)
  qed
  with r v show ?thesis by (simp add: list_all_iff)
qed

theorem indices_in_range_if_faces_valid_witness:
  "list_all (valid_face (length (ps_vertices \<lparr>ps_vertices = [(0, 0, 0), (1, 0, 0)], ps_indices = [[0, 1, 0], [7]]\<rparr>)))
     (ps_indices \<lparr>ps_vertices = [(0, 0, 0), (1, 0, 0)], ps_indices = [[0, 1, 0], [7]]\<rparr>)
   \<and> (\<exists>r. fill_mesh exact_ops \<lparr>ps_vertices = [(0, 0, 0), (1, 0, 0)], ps_indices = [[0, 1, 0], [7]]\<rparr> new_result = Some r
           \<and> vertex_count r = 2
           \<and> list_all (\<lambda>i. unat i < vertex_count r) (indices r))"
proof -
  have h: "list_all (valid_face (length (ps_vertices \<lparr>ps_vertices = [(0, 0, 0), (1, 0, 0)], ps_indices = [[0, 1, 0], [7]]\<rparr>)))
     (ps_indices \<lparr>ps_vertices = [(0::real, 0::real, 0::real), (1, 0, 0)], ps_indices = [[0, 1, 0], [7]]\<rparr>)"
    by (simp add: valid_face_def)
  from indices_in_range_if_faces_valid [OF h, of exact_ops] h show ?thesis
    by (auto simp: numeral_2_eq_2)
qed

text \<open>
  Claim C10. The step of the face loop never reads or writes out of range, on any face:
  when the vertex vector has at least \<open>vertexCount\<close> elements and the normals vector at
  least \<open>3 * vertexCount\<close>, it returns (\<open>Some\<close>), whatever the entries of the face are,
  and the normals vector keeps its length. This holds although \<^verbatim>\<open>idx * 3 + k\<close> is computed
  modulo \<open>2 ^ 32\<close>. A face with at least three entries one of which is not less than
  \<open>vertexCount\<close> leaves the normals vector unchanged while its three entries are still
  appended to the indices. The whole of lines 100 to 170 returns on every mesh, and
  \<^verbatim>\<open>extractMeshData\<close> never ends in an access out of range, whatever allocation fails.
\<close>

theorem face_accesses_in_bounds:
  assumes "vertexCount \<le> length vs" and "3 * vertexCount \<le> length ns"
  shows "(\<exists>ns'. face_step fp vs vertexCount (ns, out) face = Some (ns', out @ spec_triangle face)
            \<and> length ns' = length ns)
       \<and> (3 \<le> length face
            \<and> \<not> (unat (word_of_int (face ! 0) :: 32 word) < vertexCount
                   \<and> unat (word_of_int (face ! 1) :: 32 word) < vertexCount
                   \<and> unat (word_of_int (face ! 2) :: 32 word) < vertexCount)
           \<longrightarrow> face_step fp vs vertexCount (ns, out) face
                 = Some (ns, out @ [word_of_int (face ! 0), word_of_int (face ! 1), word_of_int (face ! 2)]))
       \<and> (\<exists>r. fill_mesh fp ps result = Some r)
       \<and> fst (extractMeshData mem fp eng polyset result cw) \<noteq> Undefined"
  using face_step_Some [of vertexCount vs "(ns, out)" fp face] assms
    face_step_unguarded [of face vertexCount fp vs "(ns, out)"]
    fill_mesh_Some [of fp ps result] extractMeshData_defined [of mem fp eng polyset result cw]
  by (simp del: One_nat_def) blast

theorem face_accesses_in_bounds_witness:
  "(1::nat) \<le> length [(0::real, 0::real, 0::real)] \<and> 3 * (1::nat) \<le> length [5::real, 6, 7]
   \<and> face_step exact_ops [(0, 0, 0)] 1 ([5, 6, 7], [9]) [0, 4, - 1] = Some ([5, 6, 7], [9, 0, 4, 4294967295])
   \<and> (\<exists>r. fill_mesh exact_ops \<lparr>ps_vertices = [(0, 0, 0)], ps_indices = [[0, 4, - 1]]\<rparr> new_result = Some r)"
  using face_accesses_in_bounds [where vertexCount = 1 and vs = "[(0::real, 0, 0)]" and ns = "[5, 6, 7]"
      and fp = exact_ops and out = "[9]" and face = "[0, 4, - 1]"
      and ps = "\<lparr>ps_vertices = [(0, 0, 0)], ps_indices = [[0, 4, - 1]]\<rparr>" and result = new_result
      and mem = unbounded and eng = plain_engine and polyset = triangle_mesh
      and cw = "([], \<lparr>g_initialized = True, g_cancelled = False\<rparr>)"]
  by (simp add: spec_triangle_def)


section \<open>Vertex normals: the code against the specification\<close>

lemma unat_slot_exact:
  fixes idx k :: "32 word"
  assumes "unat idx < vertexCount" and "3 * vertexCount \<le> 2 ^ 32" and "unat k < 3"
  shows "unat (idx * 3 + k) = unat idx * 3 + unat k"
proof -
  have "unat idx * 3 + unat k < 2 ^ 32" using assms by simp
  then have a: "unat idx * 3 < 2 ^ 32" by simp
  have "unat (idx * 3) = (unat idx * 3) mod 2 ^ 32" by (simp add: unat_word_ariths)
  with a have m: "unat (idx * 3) = unat idx * 3" by simp
  have "unat (idx * 3 + k) = (unat (idx * 3) + unat k) mod 2 ^ 32" by (simp add: unat_word_ariths)
  with m \<open>unat idx * 3 + unat k < 2 ^ 32\<close> show ?thesis by simp
qed

lemma accumulate_exact:
  assumes i: "unat idx < vertexCount" and b: "3 * vertexCount \<le> 2 ^ 32"
    and l: "3 * vertexCount \<le> length ns"
  shows "accumulate fp ns idx n =
     Some (ns[unat idx * 3 + 0 := f_add fp (ns ! (unat idx * 3 + 0)) (to_float fp (vx n)),
              unat idx * 3 + 1 := f_add fp (ns ! (unat idx * 3 + 1)) (to_float fp (vy n)),
              unat idx * 3 + 2 := f_add fp (ns ! (unat idx * 3 + 2)) (to_float fp (vz n))])"
proof -
  have s: "unat (idx * 3 + 0) = unat idx * 3 + 0" "unat (idx * 3 + 1) = unat idx * 3 + 1"
    "unat (idx * 3 + 2) = unat idx * 3 + 2"
    using unat_slot_exact [OF i b, of 0] unat_slot_exact [OF i b, of 1] unat_slot_exact [OF i b, of 2]
    by simp_all
  have r: "unat idx * 3 + 2 < length ns" using i l by simp
  show ?thesis
    unfolding accumulate_def s add_at_def using r by simp
qed

lemma triple_update:
  assumes "i * 3 + 2 < length ns"
  shows "triple (ns[i * 3 + 0 := a, i * 3 + 1 := b, i * 3 + 2 := c]) j
           = (if j = i then (a, b, c) else triple ns j)"
proof (cases "j = i")
  case True
  with assms show ?thesis by (simp add: triple_def)
next
  case False
  then have "j * 3 + k \<noteq> i * 3 + k'" if "k < 3" "k' < 3" for k k'
    using that by presburger
  then have "j * 3 \<noteq> i * 3" "j * 3 \<noteq> i * 3 + 1" "j * 3 \<noteq> i * 3 + 2"
    "j * 3 + 1 \<noteq> i * 3" "j * 3 + 1 \<noteq> i * 3 + 1" "j * 3 + 1 \<noteq> i * 3 + 2"
    "j * 3 + 2 \<noteq> i * 3" "j * 3 + 2 \<noteq> i * 3 + 1" "j * 3 + 2 \<noteq> i * 3 + 2"
    using False by presburger+
  with False show ?thesis by (simp add: triple_def)
qed

lemma accumulate_triple:
  assumes i: "unat idx < vertexCount" and b: "3 * vertexCount \<le> 2 ^ 32"
    and l: "3 * vertexCount \<le> length ns"
  shows "\<exists>ns'. accumulate fp ns idx n = Some ns' \<and> length ns' = length ns
           \<and> (\<forall>j. triple ns' j = (if j = unat idx then vaddf fp (triple ns j) (cast3 fp n) else triple ns j))"
proof -
  have r: "unat idx * 3 + 2 < length ns" using i l by simp
  show ?thesis
    unfolding accumulate_exact [OF i b l]
    using triple_update [OF r] by (simp add: cast3_def) (simp add: triple_def)
qed

lemma spec_add_nth:
  assumes "unat idx < length accs"
  shows "spec_add fp n idx accs ! j
           = (if j = unat idx then vaddf fp (accs ! j) (cast3 fp n) else accs ! j)"
  using assms by (simp add: spec_add_def)

lemma length_spec_add [simp]: "length (spec_add fp n idx accs) = length accs"
  by (simp add: spec_add_def)

lemma accumulate_refines:
  assumes i: "unat idx < vertexCount" and b: "3 * vertexCount \<le> 2 ^ 32"
    and l: "length ns = 3 * vertexCount" and la: "length accs = vertexCount"
    and rel: "\<forall>j<vertexCount. triple ns j = accs ! j"
  shows "\<exists>ns'. accumulate fp ns idx n = Some ns' \<and> length ns' = 3 * vertexCount
           \<and> (\<forall>j<vertexCount. triple ns' j = spec_add fp n idx accs ! j)"
proof -
  from accumulate_triple [OF i b, of ns fp n] l obtain ns' where
    a: "accumulate fp ns idx n = Some ns'" and l': "length ns' = length ns"
    and t: "\<forall>j. triple ns' j = (if j = unat idx then vaddf fp (triple ns j) (cast3 fp n) else triple ns j)"
    by auto
  have "triple ns' j = spec_add fp n idx accs ! j" if "j < vertexCount" for j
    using that t rel i la by (simp add: spec_add_nth)
  with a l' l show ?thesis by simp
qed

lemma face_step_refines:
  assumes vc: "vertexCount = length vs" and b: "3 * vertexCount \<le> 2 ^ 32"
    and l: "length ns = 3 * vertexCount" and la: "length accs = vertexCount"
    and rel: "\<forall>j<vertexCount. triple ns j = accs ! j"
  shows "\<exists>ns'. face_step fp vs vertexCount (ns, out) face = Some (ns', out @ spec_triangle face)
           \<and> length ns' = 3 * vertexCount
           \<and> length (spec_accumulate fp vs accs face) = vertexCount
           \<and> (\<forall>j<vertexCount. triple ns' j = spec_accumulate fp vs accs face ! j)"
proof (cases "length face < 3")
  case True
  then show ?thesis using l la rel
    by (simp add: face_step_short spec_triangle_def spec_accumulate_def spec_face_normal_def)
next
  case long: False
  define i0 :: "32 word" where "i0 = word_of_int (face ! 0)"
  define i1 :: "32 word" where "i1 = word_of_int (face ! 1)"
  define i2 :: "32 word" where "i2 = word_of_int (face ! 2)"
  have tri: "spec_triangle face = [i0, i1, i2]"
    using long by (simp add: spec_triangle_def take_three i0_def i1_def i2_def)
  show ?thesis
  proof (cases "unat i0 < vertexCount \<and> unat i1 < vertexCount \<and> unat i2 < vertexCount")
    case False
    then have "face_step fp vs vertexCount (ns, out) face = Some (ns, out @ [i0, i1, i2])"
      using long face_step_unguarded [of face vertexCount fp vs "(ns, out)"]
      by (simp add: i0_def i1_def i2_def)
    moreover have "spec_accumulate fp vs accs face = accs"
      using False long tri vc by (auto simp: spec_accumulate_def spec_face_normal_def)
    ultimately show ?thesis using tri l la rel by simp
  next
    case True
    then have r: "unat i0 < length vs" "unat i1 < length vs" "unat i2 < length vs"
      using vc by simp_all
    define normal where "normal = cross3 fp (vsub fp (vs ! unat i1) (vs ! unat i0)) (vsub fp (vs ! unat i2) (vs ! unat i0))"
    define n where "n = vdiv fp normal (norm3 fp normal)"
    show ?thesis
    proof (cases "d_pos fp (norm3 fp normal)")
      case False
      then have "face_step fp vs vertexCount (ns, out) face = Some (ns, out @ [i0, i1, i2])"
        using long True r
        unfolding face_step_def Let_def i0_def [symmetric] i1_def [symmetric] i2_def [symmetric]
        by (simp add: vec_at_def normal_def [symmetric] del: One_nat_def)
      moreover have "spec_face_normal fp vs face = None"
        using False long r unfolding spec_face_normal_def tri Let_def
        by (simp add: normal_def [symmetric])
      then have "spec_accumulate fp vs accs face = accs"
        by (simp add: spec_accumulate_def)
      ultimately show ?thesis using tri l la rel by simp
    next
      case pos: True
      have sn: "spec_face_normal fp vs face = Some n"
        using pos long r unfolding spec_face_normal_def tri Let_def
        by (simp add: normal_def [symmetric] n_def)
      then have sa: "spec_accumulate fp vs accs face
          = spec_add fp n i2 (spec_add fp n i1 (spec_add fp n i0 accs))"
        by (simp add: spec_accumulate_def tri)
      from accumulate_refines [OF _ b l la rel, of i0 fp n] True
      obtain ns0 where a0: "accumulate fp ns i0 n = Some ns0" and l0: "length ns0 = 3 * vertexCount"
        and t0: "\<forall>j<vertexCount. triple ns0 j = spec_add fp n i0 accs ! j" by blast
      from accumulate_refines [OF _ b l0 _ t0, of i1 fp n] True la
      obtain ns1 where a1: "accumulate fp ns0 i1 n = Some ns1" and l1: "length ns1 = 3 * vertexCount"
        and t1: "\<forall>j<vertexCount. triple ns1 j = spec_add fp n i1 (spec_add fp n i0 accs) ! j" by auto
      from accumulate_refines [OF _ b l1 _ t1, of i2 fp n] True la
      obtain ns2 where a2: "accumulate fp ns1 i2 n = Some ns2" and l2: "length ns2 = 3 * vertexCount"
        and t2: "\<forall>j<vertexCount. triple ns2 j
                  = spec_add fp n i2 (spec_add fp n i1 (spec_add fp n i0 accs)) ! j" by auto
      have "face_step fp vs vertexCount (ns, out) face = Some (ns2, out @ [i0, i1, i2])"
        using pos long True r a0 a1 a2
        unfolding face_step_def Let_def i0_def [symmetric] i1_def [symmetric] i2_def [symmetric]
        by (simp add: vec_at_def normal_def [symmetric] n_def [symmetric] del: One_nat_def)
      with tri l2 t2 sa la show ?thesis by simp
    qed
  qed
qed

lemma face_loop_refines:
  assumes vc: "vertexCount = length vs" and b: "3 * vertexCount \<le> 2 ^ 32"
    and l: "length ns = 3 * vertexCount" and la: "length accs = vertexCount"
    and rel: "\<forall>j<vertexCount. triple ns j = accs ! j"
  shows "\<exists>ns'. face_loop fp vs vertexCount faces (ns, out)
             = Some (ns', out @ concat (map spec_triangle faces))
           \<and> length ns' = 3 * vertexCount
           \<and> (\<forall>j<vertexCount. triple ns' j = foldl (spec_accumulate fp vs) accs faces ! j)"
  using l la rel
proof (induction faces arbitrary: ns out accs)
  case Nil
  then show ?case by simp
next
  case (Cons face faces)
  from face_step_refines [OF vc b Cons.prems, of fp out face]
  obtain ns1 where s: "face_step fp vs vertexCount (ns, out) face = Some (ns1, out @ spec_triangle face)"
    and l1: "length ns1 = 3 * vertexCount"
    and la1: "length (spec_accumulate fp vs accs face) = vertexCount"
    and t1: "\<forall>j<vertexCount. triple ns1 j = spec_accumulate fp vs accs face ! j" by blast
  from Cons.IH [OF l1 la1 t1, of "out @ spec_triangle face"] s
  show ?case by simp
qed

lemma normalize_at_triple:
  assumes "i * 3 + 2 < length ns"
  shows "\<exists>ns'. normalize_at fp ns i = Some ns' \<and> length ns' = length ns
           \<and> (\<forall>j. triple ns' j = (if j = i then spec_normalize fp (triple ns i) else triple ns j))"
proof -
  obtain x y z where t: "triple ns i = (x, y, z)" by (cases "triple ns i")
  then have xyz: "ns ! (i * 3) = x" "ns ! (i * 3 + 1) = y" "ns ! (i * 3 + 2) = z"
    by (simp_all add: triple_def)
  define len where "len = f_sqrt fp (f_add fp (f_add fp (f_mul fp x x) (f_mul fp y y)) (f_mul fp z z))"
  show ?thesis
  proof (cases "f_pos fp len")
    case True
    then have "normalize_at fp ns i
        = Some (ns[i * 3 + 0 := f_div fp x len, i * 3 + 1 := f_div fp y len, i * 3 + 2 := f_div fp z len])"
      using assms xyz unfolding normalize_at_def Let_def vec_at_def vec_put_def
      by (simp add: len_def [symmetric])
    moreover have "spec_normalize fp (triple ns i) = (f_div fp x len, f_div fp y len, f_div fp z len)"
      using True by (simp add: t len_def [symmetric])
    ultimately show ?thesis using triple_update [OF assms] by simp
  next
    case False
    then have "normalize_at fp ns i
        = Some (ns[i * 3 + 0 := f_zero fp, i * 3 + 1 := f_zero fp, i * 3 + 2 := f_one fp])"
      using assms xyz unfolding normalize_at_def Let_def vec_at_def vec_put_def
      by (simp add: len_def [symmetric])
    moreover have "spec_normalize fp (triple ns i) = (f_zero fp, f_zero fp, f_one fp)"
      using False by (simp add: t len_def [symmetric])
    ultimately show ?thesis using triple_update [OF assms] by simp
  qed
qed

lemma normalize_loop_triple:
  assumes "\<forall>i \<in> set js. i * 3 + 2 < length ns" and "distinct js"
  shows "\<exists>ns'. normalize_loop fp js ns = Some ns' \<and> length ns' = length ns
           \<and> (\<forall>j. triple ns' j = (if j \<in> set js then spec_normalize fp (triple ns j) else triple ns j))"
  using assms
proof (induction js arbitrary: ns)
  case Nil
  then show ?case by simp
next
  case (Cons i js)
  from normalize_at_triple [of i ns fp] Cons.prems obtain ns1 where
    s: "normalize_at fp ns i = Some ns1" and l1: "length ns1 = length ns"
    and t1: "\<forall>j. triple ns1 j = (if j = i then spec_normalize fp (triple ns i) else triple ns j)"
    by auto
  from Cons.IH [of ns1] Cons.prems l1 obtain ns' where
    s': "normalize_loop fp js ns1 = Some ns'" and l': "length ns' = length ns1"
    and t': "\<forall>j. triple ns' j = (if j \<in> set js then spec_normalize fp (triple ns1 j) else triple ns1 j)"
    by auto
  have "triple ns' j = (if j \<in> set (i # js) then spec_normalize fp (triple ns j) else triple ns j)" for j
    using t' t1 Cons.prems(2) by auto
  with s s' l' l1 show ?case by simp
qed

lemma triple_replicate: "i * 3 + 2 < n \<Longrightarrow> triple (replicate n z) i = (z, z, z)"
  by (simp add: triple_def)

lemma length_fold_spec_add [simp]: "length (fold (spec_add fp n) is accs) = length accs"
  by (induction "is" arbitrary: accs) simp_all

lemma length_spec_accumulate [simp]: "length (spec_accumulate fp vs accs face) = length accs"
  by (simp add: spec_accumulate_def split: option.splits)

lemma length_foldl_spec_accumulate [simp]:
  "length (foldl (spec_accumulate fp vs) accs faces) = length accs"
  by (induction faces arbitrary: accs) simp_all

text \<open>
  For a mesh with at most 1431655765 vertices (\<open>3 * vertexCount \<le> 2 ^ 32\<close>) the code
  computes the normals of the specification: the loops of lines 100 to 170 return, and the
  three entries of the result's normals array that belong to vertex \<open>i\<close> are
  \<open>spec_normals fp ps ! i\<close>, for every interpretation of the floating-point operations.
\<close>

lemma fill_mesh_refines:
  assumes b: "3 * length (ps_vertices ps) \<le> 2 ^ 32"
  shows "\<exists>r. fill_mesh fp ps new_result = Some r
          \<and> length (normals r) = 3 * length (ps_vertices ps)
          \<and> (\<forall>i<length (ps_vertices ps). triple (normals r) i = spec_normals fp ps ! i)
          \<and> indices r = concat (map spec_triangle (ps_indices ps))"
proof -
  let ?vs = "ps_vertices ps"
  let ?n = "length ?vs"
  let ?z = "f_zero fp"
  let ?ns0 = "replicate (3 * ?n) ?z"
  let ?accs0 = "replicate ?n (?z, ?z, ?z)"
  have pn: "copy_vertices fp ?vs (positions new_result, normals new_result) =
      (concat (map (\<lambda>v. [to_float fp (vx v), to_float fp (vy v), to_float fp (vz v)]) ?vs), ?ns0)"
    by (simp add: copy_vertices_eq new_result_def)
  have rel0: "\<forall>j<?n. triple ?ns0 j = ?accs0 ! j"
    by (simp add: triple_replicate)
  from face_loop_refines [OF refl b _ _ rel0, of fp "ps_indices ps" "[]"]
  obtain ns1 where fl: "face_loop fp ?vs ?n (ps_indices ps) (?ns0, [])
        = Some (ns1, concat (map spec_triangle (ps_indices ps)))"
    and l1: "length ns1 = 3 * ?n"
    and t1: "\<forall>j<?n. triple ns1 j = foldl (spec_accumulate fp ?vs) ?accs0 (ps_indices ps) ! j"
    by auto
  have "\<forall>i \<in> set [0..<?n]. i * 3 + 2 < length ns1" using l1 by auto
  from normalize_loop_triple [OF this, of fp]
  obtain ns2 where nl: "normalize_loop fp [0..<?n] ns1 = Some ns2" and l2: "length ns2 = length ns1"
    and t2: "\<forall>j. triple ns2 j = (if j \<in> set [0..<?n] then spec_normalize fp (triple ns1 j) else triple ns1 j)"
    by auto
  have "triple ns2 i = spec_normals fp ps ! i" if "i < ?n" for i
    using that t2 t1 by (simp add: spec_normals_def)
  moreover have "fill_mesh fp ps new_result
      = Some (new_result\<lparr>positions := concat (map (\<lambda>v. [to_float fp (vx v), to_float fp (vy v), to_float fp (vz v)]) ?vs),
            normals := ns2, indices := concat (map spec_triangle (ps_indices ps)),
            vertex_count := ?n,
            triangle_count := length (concat (map spec_triangle (ps_indices ps))) div 3\<rparr>)"
    unfolding fill_mesh_def Let_def pn using fl nl by (simp add: new_result_def)
  ultimately show ?thesis using l2 l1 by simp
qed

text \<open>
  Beyond that bound the position \<^verbatim>\<open>idx * 3 + k\<close> wraps. For \<open>idx = 1431655766\<close> lines 143 to
  145 update the entries 2, 3 and 4, which belong to the vertices 0 and 1, whatever the
  floating-point operations are.
\<close>

lemma accumulate_wraps:
  assumes "4 < length ns"
  shows "accumulate fp ns 1431655766 n =
     Some (ns[2 := f_add fp (ns ! 2) (to_float fp (vx n)),
              3 := f_add fp (ns ! 3) (to_float fp (vy n)),
              4 := f_add fp (ns ! 4) (to_float fp (vz n))])"
  using assms by (simp add: accumulate_def add_at_def)

lemma huge_length: "length (ps_vertices huge_mesh) = 1431655767"
  by (simp add: huge_mesh_def)

lemma huge_nth: "ps_vertices huge_mesh ! 0 = (0, 0, 0)" "ps_vertices huge_mesh ! Suc 0 = (0, 1, 0)"
  "ps_vertices huge_mesh ! 1431655766 = (1, 0, 0)"
  by (simp_all add: huge_mesh_def nth_append)

lemma huge_face_step:
  "face_step exact_ops (ps_vertices huge_mesh) 1431655767 (replicate 4294967301 0, []) [0, 1, 1431655766]
     = Some ((replicate 4294967301 0)
               [0 := 0, Suc 0 := 0, 2 := - 1, 3 := 0, 4 := 0, 5 := - 1, 2 := - 1, 3 := 0, 4 := - 1],
             [0, 1, 1431655766])"
  unfolding face_step_def Let_def
  by (simp add: vec_at_def huge_length huge_nth accumulate_def add_at_def exact_ops_def)

lemma huge_fill_mesh:
  "\<exists>r. fill_mesh exact_ops huge_mesh new_result = Some r
      \<and> triple (normals r) 1431655766 = (0, 0, 1)
      \<and> triple (normals r) 1 = (0, - 1 / sqrt 2, - 1 / sqrt 2)"
proof -
  let ?vs = "ps_vertices huge_mesh"
  let ?ns1 = "(replicate 4294967301 (0::real))
               [0 := 0, Suc 0 := 0, 2 := - 1, 3 := 0, 4 := 0, 5 := - 1, 2 := - 1, 3 := 0, 4 := - 1]"
  have pn: "snd (copy_vertices exact_ops ?vs (positions new_result, normals new_result))
      = replicate 4294967301 0"
    by (simp add: copy_vertices_eq new_result_def huge_length) (simp add: exact_ops_def)
  have faces: "ps_indices huge_mesh = [[0, 1, 1431655766]]" by (simp add: huge_mesh_def)
  have fl: "face_loop exact_ops ?vs 1431655767 (ps_indices huge_mesh) (replicate 4294967301 0, [])
      = Some (?ns1, [0, 1, 1431655766])"
    unfolding faces by (simp add: huge_face_step)
  have d: "distinct [0..<1431655767]" by (rule distinct_upt)
  have "\<forall>i \<in> set [0..<1431655767]. i * 3 + 2 < length ?ns1"
    by (simp only: set_upt length_list_update length_replicate) auto
  from normalize_loop_triple [OF this d, of exact_ops]
  obtain ns2 where nl: "normalize_loop exact_ops [0..<1431655767] ?ns1 = Some ns2"
    and t2: "\<forall>j. triple ns2 j
        = (if j \<in> set [0..<1431655767] then spec_normalize exact_ops (triple ?ns1 j) else triple ?ns1 j)"
    by blast
  have a: "triple ns2 1431655766 = spec_normalize exact_ops (triple ?ns1 1431655766)"
    using t2 by (simp only: set_upt) simp
  have b: "triple ns2 1 = spec_normalize exact_ops (triple ?ns1 1)"
    using t2 by (simp only: set_upt) simp
  have ta: "triple ?ns1 1431655766 = (0, 0, 0)" by (simp add: triple_def)
  have tb: "triple ?ns1 1 = (0, - 1, - 1)" by (simp add: triple_def)
  have na: "spec_normalize exact_ops (0, 0, 0) = (0, 0, 1)" by (simp add: exact_ops_def)
  have nb: "spec_normalize exact_ops (0, - 1, - 1) = (0, - 1 / sqrt 2, - 1 / sqrt 2)"
    by (simp add: exact_ops_def Let_def)
  have "fill_mesh exact_ops huge_mesh new_result
      = Some (new_result\<lparr>positions := fst (copy_vertices exact_ops ?vs (positions new_result, normals new_result)),
            normals := ns2, indices := [0, 1, 1431655766],
            vertex_count := 1431655767,
            triangle_count := 1\<rparr>)"
    unfolding fill_mesh_def Let_def pn huge_length
    by (simp only: new_result_fields fl) (simp add: nl)
  with a b ta tb na nb show ?thesis by simp
qed

lemma huge_spec:
  "spec_normals exact_ops huge_mesh ! 1431655766 = (0, 0, - 1)
   \<and> spec_normals exact_ops huge_mesh ! 1 = (0, 0, - 1)"
proof -
  let ?vs = "ps_vertices huge_mesh"
  have tri: "spec_triangle [0, 1, 1431655766] = [0, 1, 1431655766]"
    by (simp add: spec_triangle_def)
  have sn: "spec_face_normal exact_ops ?vs [0, 1, 1431655766] = Some (0, 0, - 1)"
    unfolding spec_face_normal_def tri Let_def
    by (simp add: huge_length huge_nth) (simp add: exact_ops_def)
  have faces: "ps_indices huge_mesh = [[0, 1, 1431655766]]" by (simp add: huge_mesh_def)
  have acc: "foldl (spec_accumulate exact_ops ?vs) (replicate 1431655767 (0, 0, 0)) (ps_indices huge_mesh)
      = (replicate 1431655767 (0, 0, 0))[0 := (0, 0, - 1), 1 := (0, 0, - 1), 1431655766 := (0, 0, - 1)]"
    unfolding faces by (simp add: spec_accumulate_def sn tri spec_add_def cast3_def) (simp add: exact_ops_def)
  have n: "spec_normalize exact_ops (0, 0, - 1) = (0, 0, - 1)" by (simp add: exact_ops_def)
  have z: "(f_zero exact_ops, f_zero exact_ops, f_zero exact_ops) = (0::real, 0::real, 0::real)"
    by (simp add: exact_ops_def)
  show ?thesis
    unfolding spec_normals_def huge_length z acc by (simp add: exact_ops_def Let_def)
qed


text \<open>
  Claim C5 describes what the code does on every mesh with at most 1431655765 vertices
  (lemma \<open>fill_mesh_refines\<close>). Beyond that the code departs from it: \<^verbatim>\<open>idx * 3 + k\<close> at
  lines 143 to 145 is computed in \<^verbatim>\<open>uint32_t\<close> and wraps. On \<open>huge_mesh\<close> the face
  \<open>[0, 1, 1431655766]\<close> has the unit normal \<open>(0, 0, -1)\<close>, which the claim adds to the
  accumulators of its three vertices, so that each of them ends with the normal
  \<open>(0, 0, -1)\<close>. The code adds it to the entries 2, 3 and 4 of the flat array instead of
  the entries of vertex 1431655766: that vertex keeps a zero accumulator and gets the
  default normal \<open>(0, 0, 1)\<close>, and vertex 1 ends with \<open>(0, -1 / sqrt 2, -1 / sqrt 2)\<close>.
\<close>

theorem normals_wrap_on_huge_mesh:
  "map_option (result_normal 1431655766) (fill_mesh exact_ops huge_mesh new_result) = Some (0, 0, 1)
   \<and> spec_normals exact_ops huge_mesh ! 1431655766 = (0, 0, - 1)
   \<and> map_option (result_normal 1) (fill_mesh exact_ops huge_mesh new_result)
       = Some (0, - 1 / sqrt 2, - 1 / sqrt 2)
   \<and> spec_normals exact_ops huge_mesh ! 1 = (0, 0, - 1)"
  using huge_fill_mesh huge_spec by (auto simp: result_normal_def)


section \<open>Render pipeline: auxiliary facts\<close>

lemma extractMeshData_new:
  "\<exists>e cw'. extractMeshData mem fp eng p new_result cw = (e, cw')
      \<and> (case e of
            Done r \<Rightarrow> \<not> success r \<and> error_message r = []
          | Thrown x r \<Rightarrow>
              \<not> success r \<and> vertex_count r = 0 \<and> triangle_count r = 0
              \<and> (positions r = [] \<and> normals r = [] \<and> indices r = []
                  \<or> x = bad_alloc \<and> \<not> (\<forall>s. mem s))
          | Undefined \<Rightarrow> False)"
proof -
  have f: "case fill_mesh_alloc mem fp q new_result of
            Done r \<Rightarrow> \<not> success r \<and> error_message r = []
          | Thrown x r \<Rightarrow>
              \<not> success r \<and> vertex_count r = 0 \<and> triangle_count r = 0
              \<and> (positions r = [] \<and> normals r = [] \<and> indices r = []
                  \<or> x = bad_alloc \<and> \<not> (\<forall>s. mem s))
          | Undefined \<Rightarrow> False" for q
  proof (cases "fill_mesh_alloc mem fp q new_result")
    case (Done r)
    with fill_mesh_alloc_cases [where mem = mem and fp = fp and ps = q and result = new_result]
    have "fill_mesh fp q new_result = Some r" by simp
    with fill_mesh_new [of fp q] Done show ?thesis by auto
  next
    case (Thrown x r)
    with fill_mesh_alloc_cases [where mem = mem and fp = fp and ps = q and result = new_result]
    have a: "x = bad_alloc" "\<not> success r" "vertex_count r = 0" "triangle_count r = 0"
      by (simp_all add: new_result_fields)
    have "\<not> (\<forall>s. mem s)"
    proof
      assume "\<forall>s. mem s"
      from fill_mesh_alloc_unbounded [OF this, where fp = fp and ps = q and result = new_result]
        Thrown show False by simp
    qed
    with a Thrown show ?thesis by simp
  next
    case Undefined
    with fill_mesh_alloc_cases [where mem = mem and fp = fp and ps = q and result = new_result]
    show ?thesis by simp
  qed
  show ?thesis
  proof (cases "isTriangular eng p")
    case True
    with f [of p] show ?thesis by (simp add: extractMeshData_def)
  next
    case False
    show ?thesis
    proof (cases "outcome (tessellate_faces eng p)")
      case (Inl e)
      with False show ?thesis by (simp add: extractMeshData_def Let_def new_result_fields)
    next
      case (Inr t)
      with False f [of "case t of Some t' \<Rightarrow> t' | None \<Rightarrow> p"] show ?thesis
        by (simp add: extractMeshData_def Let_def)
    qed
  qed
qed

lemma failed_ended: "msg \<noteq> [] \<Longrightarrow> ended_well full (Done (failed msg cap new_result))"
  by (simp add: ended_well_def failed_def new_result_def)

lemma thrown_ended: "ended_well full (Thrown e new_result)"
  by (simp add: ended_well_def new_result_def)

lemma render_polyset_ended:
  "ended_well (\<forall>s. mem s) (fst (render_polyset mem fp eng new_result g cw))"
proof -
  let ?c = "getGeometryAsPolySet eng g"
  show ?thesis
  proof (cases "outcome ?c")
    case (Inl e)
    then show ?thesis by (simp add: render_polyset_def Let_def thrown_ended)
  next
    case (Inr po)
    show ?thesis
    proof (cases po)
      case None
      with Inr show ?thesis by (simp add: render_polyset_def Let_def failed_ended)
    next
      case (Some p)
      show ?thesis
      proof (cases "isEmpty eng p")
        case True
        with Inr Some show ?thesis by (simp add: render_polyset_def Let_def failed_ended)
      next
        case False
        from extractMeshData_new [where mem = mem and fp = fp and eng = eng and p = p
            and cw = "observe ?c cw"]
        obtain e cw' where x: "extractMeshData mem fp eng p new_result (observe ?c cw) = (e, cw')"
          and "case e of
            Done r \<Rightarrow> \<not> success r \<and> error_message r = []
          | Thrown x r \<Rightarrow>
              \<not> success r \<and> vertex_count r = 0 \<and> triangle_count r = 0
              \<and> (positions r = [] \<and> normals r = [] \<and> indices r = []
                  \<or> x = bad_alloc \<and> \<not> (\<forall>s. mem s))
          | Undefined \<Rightarrow> False"
          by blast
        with Inr Some False show ?thesis
          by (cases e) (simp_all add: render_polyset_def Let_def ended_well_def)
      qed
    qed
  qed
qed

lemma render_geometry_ended:
  "ended_well (\<forall>s. mem s) (fst (render_geometry mem fp eng new_result n cw))"
proof (cases "outcome (evaluateGeometry eng n)")
  case (Inl e)
  then show ?thesis by (simp add: render_geometry_def Let_def thrown_ended)
next
  case (Inr go)
  then show ?thesis
    using render_polyset_ended [where mem = mem and fp = fp and eng = eng
        and cw = "observe (evaluateGeometry eng n) cw"]
    by (cases go) (simp_all add: render_geometry_def Let_def failed_ended)
qed

lemma render_node_ended:
  "ended_well (\<forall>s. mem s) (fst (render_node mem fp eng new_result sf cw))"
proof (cases "outcome (instantiate eng sf)")
  case (Inl e)
  then show ?thesis by (simp add: render_node_def Let_def thrown_ended)
next
  case (Inr no)
  then show ?thesis
    using render_geometry_ended [where mem = mem and fp = fp and eng = eng
        and cw = "observe (instantiate eng sf) cw"]
    by (cases no) (simp_all add: render_node_def Let_def failed_ended)
qed

lemma render_source_ended:
  "ended_well (\<forall>s. mem s) (fst (render_source mem fp eng new_result src cw))"
proof (cases "outcome (parse eng src)")
  case (Inl e)
  then show ?thesis by (simp add: render_source_def Let_def thrown_ended)
next
  case (Inr pr)
  obtain ok sfo where pr: "pr = (ok, sfo)" by (cases pr)
  show ?thesis
    using Inr pr render_node_ended [where mem = mem and fp = fp and eng = eng
        and cw = "observe (parse eng src) cw"]
    by (cases sfo) (simp_all add: render_source_def Let_def failed_ended)
qed

lemma caught_fields:
  "error_message (caught e cap r) \<noteq> []"
  "success (caught e cap r) = success r"
  "positions (caught e cap r) = positions r"
  "normals (caught e cap r) = normals r"
  "indices (caught e cap r) = indices r"
  "vertex_count (caught e cap r) = vertex_count r"
  "triangle_count (caught e cap r) = triangle_count r"
  "console_output (caught e cap r) = cap"
  by (cases e; simp)+

lemma caught_bad_alloc:
  "error_message (caught bad_alloc cap r) = ''Exception: std::bad_alloc''"
  by (simp add: bad_alloc_def)

lemma render_polyset_success:
  assumes "outcome (getGeometryAsPolySet eng g) = Inr (Some p)" and "\<not> isEmpty eng p"
    and "isTriangular eng p" and "\<forall>s. mem s"
  shows "\<exists>r. render_polyset mem fp eng new_result g cw
            = (Done (r\<lparr>success := True, console_output := fst cw @ printed (getGeometryAsPolySet eng g)\<rparr>),
               observe (getGeometryAsPolySet eng g) cw)
          \<and> fill_mesh fp p new_result = Some r"
  using assms(1-3) extractMeshData_unbounded [OF assms(4), where eng = eng and polyset = p and fp = fp
      and result = new_result and cw = "observe (getGeometryAsPolySet eng g) cw"]
  by (auto simp: render_polyset_def Let_def observe_def)

lemma plain_render:
  assumes "outcome cp = Inr (Some triangle_mesh)"
  shows "\<exists>r. openscad_render unbounded exact_ops
           (scripted c_setup (quiet (True, Some ())) (quiet (Some ())) (quiet (Some ())) cp c_tess)
           src fonts \<lparr>g_initialized = True, g_cancelled = c\<rparr>
         = (Some (r\<lparr>success := True, console_output := printed cp\<rparr>),
            \<lparr>g_initialized = True, g_cancelled = cancel_req cp\<rparr>)
         \<and> fill_mesh exact_ops triangle_mesh new_result = Some r"
proof -
  let ?eng = "scripted c_setup (quiet (True, Some ())) (quiet (Some ())) (quiet (Some ())) cp c_tess"
  have a: "outcome (getGeometryAsPolySet ?eng ()) = Inr (Some triangle_mesh)"
    using assms by (simp add: scripted_def)
  have b: "\<not> isEmpty ?eng triangle_mesh" by (simp add: scripted_def triangle_mesh_def)
  have c: "isTriangular ?eng triangle_mesh" by (simp add: scripted_def triangle_mesh_def)
  have m: "\<forall>s. unbounded s" by (simp add: unbounded_def)
  from render_polyset_success [OF a b c m, where fp = exact_ops
      and cw = "([], \<lparr>g_initialized = True, g_cancelled = False\<rparr>)"]
  obtain r where "render_polyset unbounded exact_ops ?eng new_result ()
              ([], \<lparr>g_initialized = True, g_cancelled = False\<rparr>)
            = (Done (r\<lparr>success := True, console_output := printed cp\<rparr>),
               observe cp ([], \<lparr>g_initialized = True, g_cancelled = False\<rparr>))"
    and f: "fill_mesh exact_ops triangle_mesh new_result = Some r"
    by (auto simp: scripted_def)
  then have "openscad_render unbounded exact_ops ?eng src fonts \<lparr>g_initialized = True, g_cancelled = c\<rparr>
         = (Some (r\<lparr>success := True, console_output := printed cp\<rparr>),
            \<lparr>g_initialized = True, g_cancelled = cancel_req cp\<rparr>)"
    by (simp add: openscad_render_def fresh_result ensure_initialized_def Let_def render_source_def
        render_node_def render_geometry_def scripted_def quiet_def observe_def)
  with f show ?thesis by blast
qed

lemma failed_new:
  "failed msg cap new_result =
     \<lparr>success = False, error_message = msg, console_output = cap,
      positions = [], normals = [], indices = [], vertex_count = 0, triangle_count = 0\<rparr>"
  by (simp add: failed_def new_result_def)

lemma caught_new:
  "caught e cap new_result =
     \<lparr>success = False,
      error_message = (case e of StdException what \<Rightarrow> ''Exception: '' @ what
                       | OtherException \<Rightarrow> ''Unknown exception during render''),
      console_output = cap,
      positions = [], normals = [], indices = [], vertex_count = 0, triangle_count = 0\<rparr>"
  by (cases e) (simp_all add: new_result_def)

lemma caught_eq:
  "caught e cap r =
     r\<lparr>error_message := (case e of StdException what \<Rightarrow> ''Exception: '' @ what
                         | OtherException \<Rightarrow> ''Unknown exception during render''),
       console_output := cap\<rparr>"
  by (cases e) simp_all

lemma render_resets_flag:
  "openscad_render mem fp eng src fonts (w\<lparr>g_cancelled := c\<rparr>) = openscad_render mem fp eng src fonts w"
  by (simp add: openscad_render_def)

lemmas sample_defs = scripted_def quiet_def interrupted_def printing_def throwing_def
  ensure_initialized_def openscad_init_def observe_def

lemma openscad_render_returns:
  "\<exists>r w'. openscad_render mem fp eng scad_source fonts_path w = (Some r, w')"
proof -
  let ?iw = "ensure_initialized eng (w\<lparr>g_cancelled := False\<rparr>)"
  obtain e cw where rs: "render_source mem fp eng new_result scad_source ([], snd ?iw) = (e, cw)"
    by (cases "render_source mem fp eng new_result scad_source ([], snd ?iw)")
  with render_source_ended [where mem = mem and fp = fp and eng = eng and src = scad_source
      and cw = "([], snd ?iw)"]
  have "ended_well (\<forall>s. mem s) e" by simp
  with rs show ?thesis
    by (cases e) (auto simp: openscad_render_def fresh_result Let_def ended_well_def)
qed

text \<open>
  A cancellation during the conversion to a polygon set or during the tessellation
  changes neither how the \<^verbatim>\<open>try\<close> block ends nor the text it captures.
\<close>

lemma late_cancel_fields:
  "engine_setup (with_late_cancel b1 b2 eng) = engine_setup eng"
  "parse (with_late_cancel b1 b2 eng) = parse eng"
  "instantiate (with_late_cancel b1 b2 eng) = instantiate eng"
  "evaluateGeometry (with_late_cancel b1 b2 eng) = evaluateGeometry eng"
  "isEmpty (with_late_cancel b1 b2 eng) = isEmpty eng"
  "isTriangular (with_late_cancel b1 b2 eng) = isTriangular eng"
  "outcome (getGeometryAsPolySet (with_late_cancel b1 b2 eng) g) = outcome (getGeometryAsPolySet eng g)"
  "printed (getGeometryAsPolySet (with_late_cancel b1 b2 eng) g) = printed (getGeometryAsPolySet eng g)"
  "outcome (tessellate_faces (with_late_cancel b1 b2 eng) p) = outcome (tessellate_faces eng p)"
  "printed (tessellate_faces (with_late_cancel b1 b2 eng) p) = printed (tessellate_faces eng p)"
  by (simp_all add: with_late_cancel_def)

lemma late_cancel_extract:
  assumes "fst cw' = fst cw"
  shows "fst (extractMeshData mem fp (with_late_cancel b1 b2 eng) p r cw')
           = fst (extractMeshData mem fp eng p r cw)
       \<and> fst (snd (extractMeshData mem fp (with_late_cancel b1 b2 eng) p r cw'))
           = fst (snd (extractMeshData mem fp eng p r cw))"
  using assms
  by (simp add: extractMeshData_def Let_def late_cancel_fields observe_def split: sum.splits)

lemma late_cancel_polyset:
  "fst (render_polyset mem fp (with_late_cancel b1 b2 eng) r g cw)
     = fst (render_polyset mem fp eng r g cw)
   \<and> fst (snd (render_polyset mem fp (with_late_cancel b1 b2 eng) r g cw))
     = fst (snd (render_polyset mem fp eng r g cw))"
proof (cases "outcome (getGeometryAsPolySet eng g)")
  case (Inl e)
  then show ?thesis
    by (simp add: render_polyset_def Let_def late_cancel_fields observe_def)
next
  case (Inr po)
  show ?thesis
  proof (cases po)
    case None
    with Inr show ?thesis
      by (simp add: render_polyset_def Let_def late_cancel_fields observe_def)
  next
    case (Some p)
    let ?cw' = "observe (getGeometryAsPolySet (with_late_cancel b1 b2 eng) g) cw"
    let ?cw = "observe (getGeometryAsPolySet eng g) cw"
    have c: "fst ?cw' = fst ?cw" by (simp add: observe_def late_cancel_fields)
    obtain e1 c1 w1 where x1: "extractMeshData mem fp (with_late_cancel b1 b2 eng) p r ?cw' = (e1, c1, w1)"
      by (cases "extractMeshData mem fp (with_late_cancel b1 b2 eng) p r ?cw'") auto
    obtain e2 c2 w2 where x2: "extractMeshData mem fp eng p r ?cw = (e2, c2, w2)"
      by (cases "extractMeshData mem fp eng p r ?cw") auto
    from late_cancel_extract [OF c, where mem = mem and fp = fp and ?b1.0 = b1 and ?b2.0 = b2
        and eng = eng and p = p and r = r] x1 x2
    have "e1 = e2" "c1 = c2" by simp_all
    with Inr Some x1 x2 c show ?thesis
      by (cases e2) (simp_all add: render_polyset_def Let_def late_cancel_fields)
  qed
qed

lemma late_cancel_source:
  "fst (render_source mem fp (with_late_cancel b1 b2 eng) r src cw)
     = fst (render_source mem fp eng r src cw)
   \<and> fst (snd (render_source mem fp (with_late_cancel b1 b2 eng) r src cw))
     = fst (snd (render_source mem fp eng r src cw))"
proof -
  have g: "fst (render_geometry mem fp (with_late_cancel b1 b2 eng) r n cw0)
             = fst (render_geometry mem fp eng r n cw0)
         \<and> fst (snd (render_geometry mem fp (with_late_cancel b1 b2 eng) r n cw0))
             = fst (snd (render_geometry mem fp eng r n cw0))" for n cw0
    using late_cancel_polyset [where mem = mem and fp = fp and ?b1.0 = b1 and ?b2.0 = b2
        and eng = eng and r = r]
    by (simp add: render_geometry_def Let_def late_cancel_fields split: sum.splits option.splits)
  have n: "fst (render_node mem fp (with_late_cancel b1 b2 eng) r sf cw0)
             = fst (render_node mem fp eng r sf cw0)
         \<and> fst (snd (render_node mem fp (with_late_cancel b1 b2 eng) r sf cw0))
             = fst (snd (render_node mem fp eng r sf cw0))" for sf cw0
    using g by (simp add: render_node_def Let_def late_cancel_fields split: sum.splits option.splits)
  show ?thesis
    using n by (simp add: render_source_def Let_def late_cancel_fields
        split: sum.splits option.splits prod.splits)
qed

lemma late_cancel_render:
  fixes fp :: "('d, 'f) fp_ops"
  shows "fst (openscad_render mem fp (with_late_cancel b1 b2 eng) src fonts w)
     = fst (openscad_render mem fp eng src fonts w)"
proof -
  let ?iw = "ensure_initialized eng (w\<lparr>g_cancelled := False\<rparr>)"
  have i: "ensure_initialized (with_late_cancel b1 b2 eng) (w\<lparr>g_cancelled := False\<rparr>) = ?iw"
    by (simp add: ensure_initialized_def late_cancel_fields)
  let ?r0 = "new_result :: 'f OpenSCADRenderResult"
  obtain e1 c1 w1 where x1:
    "render_source mem fp (with_late_cancel b1 b2 eng) ?r0 src ([], snd ?iw) = (e1, c1, w1)"
    by (cases "render_source mem fp (with_late_cancel b1 b2 eng) ?r0 src ([], snd ?iw)") auto
  obtain e2 c2 w2 where x2: "render_source mem fp eng ?r0 src ([], snd ?iw) = (e2, c2, w2)"
    by (cases "render_source mem fp eng ?r0 src ([], snd ?iw)") auto
  from late_cancel_source [where mem = mem and fp = fp and ?b1.0 = b1 and ?b2.0 = b2 and eng = eng
      and r = ?r0 and src = src and cw = "([], snd ?iw)"] x1 x2
  have "e1 = e2" "c1 = c2" by simp_all
  with x1 x2 show ?thesis
    by (cases e2) (simp_all add: openscad_render_def fresh_result Let_def i)
qed

text \<open>The \<^verbatim>\<open>try\<close> block stage by stage.\<close>

lemma render_top:
  assumes "fst (ensure_initialized eng (w\<lparr>g_cancelled := False\<rparr>)) = 0"
  shows "openscad_render mem fp eng src fonts w
    = (case render_source mem fp eng new_result src
              ([], snd (ensure_initialized eng (w\<lparr>g_cancelled := False\<rparr>))) of
         (Done r, cw) \<Rightarrow> (Some r, snd cw)
       | (Thrown e r, cw) \<Rightarrow> (Some (caught e (fst cw) r), snd cw)
       | (Undefined, cw) \<Rightarrow> (None, snd cw))"
  using assms by (simp add: openscad_render_def fresh_result Let_def)

lemma source_to_node:
  assumes "outcome (parse eng src) = Inr (True, Some sf)"
    and "\<not> g_cancelled (snd (observe (parse eng src) cw))"
  shows "render_source mem fp eng r src cw = render_node mem fp eng r sf (observe (parse eng src) cw)"
  using assms by (simp add: render_source_def Let_def)

lemma node_to_geometry:
  assumes "outcome (instantiate eng sf) = Inr (Some n)"
    and "\<not> g_cancelled (snd (observe (instantiate eng sf) cw))"
  shows "render_node mem fp eng r sf cw = render_geometry mem fp eng r n (observe (instantiate eng sf) cw)"
  using assms by (simp add: render_node_def Let_def)

lemma geometry_to_polyset:
  assumes "outcome (evaluateGeometry eng n) = Inr (Some g)"
    and "\<not> g_cancelled (snd (observe (evaluateGeometry eng n) cw))"
  shows "render_geometry mem fp eng r n cw
           = render_polyset mem fp eng r g (observe (evaluateGeometry eng n) cw)"
  using assms by (simp add: render_geometry_def Let_def)

lemma polyset_to_extract:
  assumes "outcome (getGeometryAsPolySet eng g) = Inr (Some p)" and "\<not> isEmpty eng p"
  shows "render_polyset mem fp eng r g cw
           = (case extractMeshData mem fp eng p r (observe (getGeometryAsPolySet eng g) cw) of
                (Done r', cw2) \<Rightarrow> (Done (r'\<lparr>success := True, console_output := fst cw2\<rparr>), cw2)
              | (Thrown e r', cw2) \<Rightarrow> (Thrown e r', cw2)
              | (Undefined, cw2) \<Rightarrow> (Undefined, cw2))"
  using assms by (simp add: render_polyset_def Let_def)

lemma fault_new:
  "caught e cap new_result = spec_fault_result e cap"
  by (simp add: caught_new spec_fault_result_def spec_fault_message_def)

lemma fault_eq:
  "caught e cap r = r\<lparr>error_message := spec_fault_message e, console_output := cap\<rparr>"
  by (simp add: caught_eq spec_fault_message_def)

text \<open>
  The triangle of \<open>triangle_mesh\<close> when the first \<^verbatim>\<open>push_back\<close> of line 123 fails: the
  positions and the zeroed normals of lines 106 to 113 are in the result.
\<close>

lemma sample_push_fails:
  "extractMeshData (failing_at (PushIndex 0)) exact_ops plain_engine triangle_mesh new_result cw
     = (Thrown bad_alloc
          (new_result\<lparr>positions := [0, 0, 0, 1, 0, 0, 0, 1, 0],
                      normals := [0, 0, 0, 0, 0, 0, 0, 0, 0]\<rparr>), cw)"
  by (simp add: extractMeshData_def fill_mesh_alloc_def plain_engine_def scripted_def
      triangle_mesh_def failing_at_def new_result_def exact_ops_def Let_def)

section \<open>Render pipeline: the claims\<close>

text \<open>
  Claim C2, as stated, fails: line 205 clears the cancellation flag at the start of every
  render, so a cancellation requested before the render starts is lost. With an engine
  that renders a triangle, \<^verbatim>\<open>openscad_cancel\<close> followed by \<^verbatim>\<open>openscad_render\<close> succeeds with
  an empty error message.
\<close>

theorem cancel_before_render_counterexample:
  "map_option success
     (fst (openscad_render unbounded exact_ops plain_engine ''cube(1);'' None
        (openscad_cancel \<lparr>g_initialized = True, g_cancelled = False\<rparr>))) = Some True
   \<and> map_option error_message
     (fst (openscad_render unbounded exact_ops plain_engine ''cube(1);'' None
        (openscad_cancel \<lparr>g_initialized = True, g_cancelled = False\<rparr>))) = Some []"
  using plain_render [where cp = "quiet (Some triangle_mesh)" and c_setup = "quiet ()"
      and c_tess = "quiet None" and src = "''cube(1);''" and fonts = None and c = True]
    fill_mesh_new [of exact_ops triangle_mesh]
  by (auto simp: plain_engine_def openscad_cancel_def quiet_def)

text \<open>
  Claim C2, amended. A cancellation requested before a render starts has no effect on
  that render: \<^verbatim>\<open>openscad_render\<close> after \<^verbatim>\<open>openscad_cancel\<close> returns what it returns without
  it. A cancellation that is requested after the reset of line 205 and before the parser
  comes back (during the implicit initialisation or during parsing) takes effect at the
  first checkpoint after a successful parse: the render fails with the message
  \<open>Render cancelled\<close>, no mesh data, the console text of the parser, and the flag left set.
\<close>

theorem cancel_before_render_discarded:
  fixes eng :: "('sf, 'node, 'geom, 'd) engine" and fp :: "('d, 'f) fp_ops" and w :: world
  defines "iw \<equiv> ensure_initialized eng (w\<lparr>g_cancelled := False\<rparr>)"
  shows "openscad_render mem fp eng src fonts (openscad_cancel w)
           = openscad_render mem fp eng src fonts w
    \<and> (fst iw = 0 \<and> outcome (parse eng src) = Inr (True, Some sf)
        \<and> (g_cancelled (snd iw) \<or> cancel_req (parse eng src))
       \<longrightarrow> openscad_render mem fp eng src fonts w
           = (Some \<lparr>success = False, error_message = ''Render cancelled'',
                    console_output = printed (parse eng src),
                    positions = [], normals = [], indices = [], vertex_count = 0, triangle_count = 0\<rparr>,
              (snd iw)\<lparr>g_cancelled := True\<rparr>))"
proof -
  have "openscad_render mem fp eng src fonts (openscad_cancel w)
          = openscad_render mem fp eng src fonts w"
    unfolding openscad_cancel_def by (rule render_resets_flag)
  moreover have "openscad_render mem fp eng src fonts w
           = (Some \<lparr>success = False, error_message = ''Render cancelled'',
                    console_output = printed (parse eng src),
                    positions = [], normals = [], indices = [], vertex_count = 0, triangle_count = 0\<rparr>,
              (snd iw)\<lparr>g_cancelled := True\<rparr>)"
    if "fst iw = 0" "outcome (parse eng src) = Inr (True, Some sf)"
      "g_cancelled (snd iw) \<or> cancel_req (parse eng src)"
    using that unfolding iw_def
    by (auto simp: openscad_render_def fresh_result Let_def render_source_def observe_def failed_new)
  ultimately show ?thesis by blast
qed

theorem cancel_before_render_discarded_witness:
  "openscad_render unbounded exact_ops
      (scripted (quiet ()) (interrupted (printing ''ECHO: 1'' (quiet (True, Some ())))) (quiet (Some ()))
         (quiet (Some ())) (quiet (Some triangle_mesh)) (quiet None))
      ''echo(1); cube(1);'' None (openscad_cancel \<lparr>g_initialized = False, g_cancelled = False\<rparr>)
    = (Some \<lparr>success = False, error_message = ''Render cancelled'', console_output = ''ECHO: 1'',
             positions = [], normals = [], indices = [], vertex_count = 0, triangle_count = 0\<rparr>,
       \<lparr>g_initialized = True, g_cancelled = True\<rparr>)"
  using cancel_before_render_discarded
    [where eng = "scripted (quiet ()) (interrupted (printing ''ECHO: 1'' (quiet (True, Some ())))) (quiet (Some ()))
         (quiet (Some ())) (quiet (Some triangle_mesh)) (quiet None)"
      and w = "\<lparr>g_initialized = False, g_cancelled = False\<rparr>" and src = "''echo(1); cube(1);''"
      and sf = "()" and fp = exact_ops and fonts = None and mem = unbounded]
  by (simp add: scripted_def quiet_def interrupted_def printing_def ensure_initialized_def
      openscad_init_def)

text \<open>
  Claim C3, as stated, fails for the transition into extraction: there is no checkpoint
  between the conversion to a polygon set (line 308) and \<^verbatim>\<open>extractMeshData\<close> (line 320).
  A cancellation that arrives during the conversion leaves the flag set and the render
  succeeds.
\<close>

theorem cancel_before_extracting_counterexample:
  "map_option success
     (fst (openscad_render unbounded exact_ops
        (scripted (quiet ()) (quiet (True, Some ())) (quiet (Some ())) (quiet (Some ()))
           (interrupted (quiet (Some triangle_mesh))) (quiet None))
        ''cube(1);'' None \<lparr>g_initialized = True, g_cancelled = False\<rparr>)) = Some True
   \<and> g_cancelled
     (snd (openscad_render unbounded exact_ops
        (scripted (quiet ()) (quiet (True, Some ())) (quiet (Some ())) (quiet (Some ()))
           (interrupted (quiet (Some triangle_mesh))) (quiet None))
        ''cube(1);'' (None :: string option) \<lparr>g_initialized = True, g_cancelled = False\<rparr>
        :: real OpenSCADRenderResult option \<times> world))"
  using plain_render [where cp = "interrupted (quiet (Some triangle_mesh))" and c_setup = "quiet ()"
      and c_tess = "quiet None" and src = "''cube(1);''" and fonts = None and c = False]
  by (auto simp: quiet_def interrupted_def)

text \<open>
  Claim C3, amended. After initialisation and a successful parse the pipeline polls the
  cancellation flag at three points: before instantiating (line 237), after a successful
  instantiation and before evaluating (line 272), and after a successful evaluation and
  before the conversion to a polygon set (line 298). If the flag is set at the first of
  these points that the render reaches with the flag set, the render fails with the
  message \<open>Render cancelled\<close>, no mesh data and the console text captured up to that
  point. (\<open>cw1\<close>, \<open>cw2\<close>, \<open>cw3\<close> are the captured text and the flags after the parser, the
  instantiation and the evaluation have come back.) There is no poll after the third:
  whether or not a cancellation arrives during the conversion to a polygon set or during
  the tessellation, in every render, the result is the same.
\<close>

theorem render_polls_cancellation:
  fixes eng :: "('sf, 'node, 'geom, 'd) engine" and fp :: "('d, 'f) fp_ops" and w :: world
    and src :: string and sf :: 'sf and root_node :: 'node
  defines "iw \<equiv> ensure_initialized eng (w\<lparr>g_cancelled := False\<rparr>)"
  defines "cw1 \<equiv> observe (parse eng src) ([], snd iw)"
  defines "cw2 \<equiv> observe (instantiate eng sf) cw1"
  defines "cw3 \<equiv> observe (evaluateGeometry eng root_node) cw2"
  shows "fst (openscad_render mem fp (with_late_cancel b1 b2 eng) src fonts w)
           = fst (openscad_render mem fp eng src fonts w)
       \<and> (fst iw = 0 \<and> outcome (parse eng src) = Inr (True, Some sf) \<longrightarrow>
          (g_cancelled (snd cw1)
           \<longrightarrow> openscad_render mem fp eng src fonts w
              = (Some \<lparr>success = False, error_message = ''Render cancelled'', console_output = fst cw1,
                       positions = [], normals = [], indices = [], vertex_count = 0, triangle_count = 0\<rparr>,
                 snd cw1))
        \<and> (\<not> g_cancelled (snd cw1) \<and> outcome (instantiate eng sf) = Inr (Some root_node)
            \<and> g_cancelled (snd cw2)
           \<longrightarrow> openscad_render mem fp eng src fonts w
              = (Some \<lparr>success = False, error_message = ''Render cancelled'', console_output = fst cw2,
                       positions = [], normals = [], indices = [], vertex_count = 0, triangle_count = 0\<rparr>,
                 snd cw2))
        \<and> (\<not> g_cancelled (snd cw1) \<and> outcome (instantiate eng sf) = Inr (Some root_node)
            \<and> \<not> g_cancelled (snd cw2) \<and> outcome (evaluateGeometry eng root_node) = Inr (Some geometry)
            \<and> g_cancelled (snd cw3)
           \<longrightarrow> openscad_render mem fp eng src fonts w
              = (Some \<lparr>success = False, error_message = ''Render cancelled'', console_output = fst cw3,
                       positions = [], normals = [], indices = [], vertex_count = 0, triangle_count = 0\<rparr>,
                 snd cw3)))"
proof -
  have late: "fst (openscad_render mem fp (with_late_cancel b1 b2 eng) src fonts w)
           = fst (openscad_render mem fp eng src fonts w)"
    by (rule late_cancel_render)
  have polls: "(g_cancelled (snd cw1)
           \<longrightarrow> openscad_render mem fp eng src fonts w
              = (Some \<lparr>success = False, error_message = ''Render cancelled'', console_output = fst cw1,
                       positions = [], normals = [], indices = [], vertex_count = 0, triangle_count = 0\<rparr>,
                 snd cw1))
        \<and> (\<not> g_cancelled (snd cw1) \<and> outcome (instantiate eng sf) = Inr (Some root_node)
            \<and> g_cancelled (snd cw2)
           \<longrightarrow> openscad_render mem fp eng src fonts w
              = (Some \<lparr>success = False, error_message = ''Render cancelled'', console_output = fst cw2,
                       positions = [], normals = [], indices = [], vertex_count = 0, triangle_count = 0\<rparr>,
                 snd cw2))
        \<and> (\<not> g_cancelled (snd cw1) \<and> outcome (instantiate eng sf) = Inr (Some root_node)
            \<and> \<not> g_cancelled (snd cw2) \<and> outcome (evaluateGeometry eng root_node) = Inr (Some geometry)
            \<and> g_cancelled (snd cw3)
           \<longrightarrow> openscad_render mem fp eng src fonts w
              = (Some \<lparr>success = False, error_message = ''Render cancelled'', console_output = fst cw3,
                       positions = [], normals = [], indices = [], vertex_count = 0, triangle_count = 0\<rparr>,
                 snd cw3))"
    if init: "fst iw = 0" and parsed: "outcome (parse eng src) = Inr (True, Some sf)"
  proof -
    have top: "openscad_render mem fp eng src fonts w =
      (case render_source mem fp eng new_result src ([], snd iw) of
            (Done r, cw) \<Rightarrow> (Some r, snd cw)
          | (Thrown e r, cw) \<Rightarrow> (Some (caught e (fst cw) r), snd cw)
          | (Undefined, cw) \<Rightarrow> (None, snd cw))"
      using init unfolding iw_def by (rule render_top)
    have a: "render_source mem fp eng new_result src ([], snd iw)
             = (Done (failed ''Render cancelled'' (fst cw1) new_result), cw1)"
      if "g_cancelled (snd cw1)"
      using that parsed by (simp add: render_source_def Let_def cw1_def)
    have a': "render_source mem fp eng new_result src ([], snd iw)
               = render_node mem fp eng new_result sf cw1"
      if "\<not> g_cancelled (snd cw1)"
      using that parsed by (simp add: render_source_def Let_def cw1_def)
    have b: "render_node mem fp eng new_result sf cw1
             = (Done (failed ''Render cancelled'' (fst cw2) new_result), cw2)"
      if "outcome (instantiate eng sf) = Inr (Some root_node)" "g_cancelled (snd cw2)"
      using that by (simp add: render_node_def Let_def cw2_def)
    have b': "render_node mem fp eng new_result sf cw1
               = render_geometry mem fp eng new_result root_node cw2"
      if "outcome (instantiate eng sf) = Inr (Some root_node)" "\<not> g_cancelled (snd cw2)"
      using that by (simp add: render_node_def Let_def cw2_def)
    have c: "render_geometry mem fp eng new_result root_node cw2
             = (Done (failed ''Render cancelled'' (fst cw3) new_result), cw3)"
      if "outcome (evaluateGeometry eng root_node) = Inr (Some geometry)" "g_cancelled (snd cw3)"
      using that by (simp add: render_geometry_def Let_def cw3_def)
    show ?thesis
      using a a' b b' c by (simp add: top failed_new)
  qed
  from late polls show ?thesis by blast
qed

theorem render_polls_cancellation_witness:
  "openscad_render unbounded exact_ops
      (scripted (quiet ()) (interrupted (printing ''a'' (quiet (True, Some ()))))
         (printing ''b'' (quiet (Some ()))) (printing ''c'' (quiet (Some ())))
         (quiet (Some triangle_mesh)) (quiet None))
      ''cube(1);'' None \<lparr>g_initialized = True, g_cancelled = False\<rparr>
    = (Some \<lparr>success = False, error_message = ''Render cancelled'', console_output = ''a'',
             positions = [], normals = [], indices = [], vertex_count = 0, triangle_count = 0\<rparr>,
       \<lparr>g_initialized = True, g_cancelled = True\<rparr>)
   \<and> openscad_render unbounded exact_ops
      (scripted (quiet ()) (printing ''a'' (quiet (True, Some ())))
         (interrupted (printing ''b'' (quiet (Some ())))) (printing ''c'' (quiet (Some ())))
         (quiet (Some triangle_mesh)) (quiet None))
      ''cube(1);'' None \<lparr>g_initialized = True, g_cancelled = False\<rparr>
    = (Some \<lparr>success = False, error_message = ''Render cancelled'', console_output = ''ab'',
             positions = [], normals = [], indices = [], vertex_count = 0, triangle_count = 0\<rparr>,
       \<lparr>g_initialized = True, g_cancelled = True\<rparr>)
   \<and> openscad_render unbounded exact_ops
      (scripted (quiet ()) (printing ''a'' (quiet (True, Some ())))
         (printing ''b'' (quiet (Some ()))) (interrupted (printing ''c'' (quiet (Some ()))))
         (quiet (Some triangle_mesh)) (quiet None))
      ''cube(1);'' None \<lparr>g_initialized = True, g_cancelled = False\<rparr>
    = (Some \<lparr>success = False, error_message = ''Render cancelled'', console_output = ''abc'',
             positions = [], normals = [], indices = [], vertex_count = 0, triangle_count = 0\<rparr>,
       \<lparr>g_initialized = True, g_cancelled = True\<rparr>)
   \<and> fst (openscad_render unbounded exact_ops
            (with_late_cancel (\<lambda>g. True) (\<lambda>p. True) plain_engine)
            ''cube(1);'' None \<lparr>g_initialized = True, g_cancelled = False\<rparr>)
     = fst (openscad_render unbounded exact_ops plain_engine
            ''cube(1);'' None \<lparr>g_initialized = True, g_cancelled = False\<rparr>)"
  using render_polls_cancellation
    [where eng = "scripted (quiet ()) (interrupted (printing ''a'' (quiet (True, Some ()))))
         (printing ''b'' (quiet (Some ()))) (printing ''c'' (quiet (Some ())))
         (quiet (Some triangle_mesh)) (quiet None)"
      and w = "\<lparr>g_initialized = True, g_cancelled = False\<rparr>" and src = "''cube(1);''"
      and sf = "()" and root_node = "()" and geometry = "()" and fp = exact_ops and fonts = None
      and mem = unbounded]
    render_polls_cancellation
    [where eng = "scripted (quiet ()) (printing ''a'' (quiet (True, Some ())))
         (interrupted (printing ''b'' (quiet (Some ())))) (printing ''c'' (quiet (Some ())))
         (quiet (Some triangle_mesh)) (quiet None)"
      and w = "\<lparr>g_initialized = True, g_cancelled = False\<rparr>" and src = "''cube(1);''"
      and sf = "()" and root_node = "()" and geometry = "()" and fp = exact_ops and fonts = None
      and mem = unbounded]
    render_polls_cancellation
    [where eng = "scripted (quiet ()) (printing ''a'' (quiet (True, Some ())))
         (printing ''b'' (quiet (Some ()))) (interrupted (printing ''c'' (quiet (Some ()))))
         (quiet (Some triangle_mesh)) (quiet None)"
      and w = "\<lparr>g_initialized = True, g_cancelled = False\<rparr>" and src = "''cube(1);''"
      and sf = "()" and root_node = "()" and geometry = "()" and fp = exact_ops and fonts = None
      and mem = unbounded]
    render_polls_cancellation
    [where eng = plain_engine and ?b1.0 = "\<lambda>g. True" and ?b2.0 = "\<lambda>p. True"
      and w = "\<lparr>g_initialized = True, g_cancelled = False\<rparr>" and src = "''cube(1);''"
      and fp = exact_ops and fonts = None and mem = unbounded]
  by (simp add: sample_defs)

text \<open>
  Claim C4, as stated, fails: \<^verbatim>\<open>result->indices\<close> is never reserved, so a \<^verbatim>\<open>push_back\<close> of
  lines 123 to 125 can throw \<^verbatim>\<open>std::bad_alloc\<close> after lines 106 to 113 have filled the
  positions and the normals, and the handler of line 327 clears nothing. When the first
  \<^verbatim>\<open>push_back\<close> fails on a triangle, the render fails with nine positions and nine
  normals in the result.
\<close>

theorem failed_render_keeps_arrays_counterexample:
  "openscad_render (failing_at (PushIndex 0)) exact_ops plain_engine ''cube(1);'' None
      \<lparr>g_initialized = True, g_cancelled = False\<rparr>
     = (Some \<lparr>success = False, error_message = ''Exception: std::bad_alloc'', console_output = [],
              positions = [0, 0, 0, 1, 0, 0, 0, 1, 0], normals = [0, 0, 0, 0, 0, 0, 0, 0, 0],
              indices = [], vertex_count = 0, triangle_count = 0\<rparr>,
        \<lparr>g_initialized = True, g_cancelled = False\<rparr>)"
proof -
  let ?w = "\<lparr>g_initialized = True, g_cancelled = False\<rparr>"
  have "render_source (failing_at (PushIndex 0)) exact_ops plain_engine new_result ''cube(1);'' ([], ?w)
      = (Thrown bad_alloc
          (new_result\<lparr>positions := [0, 0, 0, 1, 0, 0, 0, 1, 0],
                      normals := [0, 0, 0, 0, 0, 0, 0, 0, 0]\<rparr>), [], ?w)"
    using sample_push_fails [of "([], ?w)"]
    by (simp add: render_source_def render_node_def render_geometry_def render_polyset_def
        plain_engine_def scripted_def quiet_def observe_def triangle_mesh_def Let_def)
  then show ?thesis
    by (simp add: openscad_render_def fresh_result ensure_initialized_def Let_def bad_alloc_def
        new_result_def)
qed

text \<open>
  Claim C4, amended. Every call of \<^verbatim>\<open>openscad_render\<close> returns a result, and whenever the
  result has \<open>success = False\<close> both counts are zero and the error message is not empty.
  Its three arrays are empty too, unless an allocation of \<^verbatim>\<open>extractMeshData\<close> fails and
  the error message is \<open>Exception: std::bad_alloc\<close>. This covers the failed
  initialisation, every early return of the \<^verbatim>\<open>try\<close> block, cancellation and both \<^verbatim>\<open>catch\<close>
  clauses.
\<close>

theorem failed_render_counts_zero:
  "\<exists>r w'. openscad_render mem fp eng scad_source fonts_path w = (Some r, w')
      \<and> (\<not> success r \<longrightarrow>
            vertex_count r = 0 \<and> triangle_count r = 0 \<and> error_message r \<noteq> []
            \<and> (positions r = [] \<and> normals r = [] \<and> indices r = []
                \<or> error_message r = ''Exception: std::bad_alloc'' \<and> \<not> (\<forall>s. mem s)))"
proof -
  let ?iw = "ensure_initialized eng (w\<lparr>g_cancelled := False\<rparr>)"
  show ?thesis
  proof (cases "fst ?iw = 0")
    case False
    then show ?thesis by (simp add: openscad_render_def fresh_result Let_def new_result_def)
  next
    case True
    obtain e cw where rs: "render_source mem fp eng new_result scad_source ([], snd ?iw) = (e, cw)"
      by (cases "render_source mem fp eng new_result scad_source ([], snd ?iw)")
    with render_source_ended [where mem = mem and fp = fp and eng = eng and src = scad_source
        and cw = "([], snd ?iw)"]
    have w: "ended_well (\<forall>s. mem s) e" by simp
    show ?thesis
    proof (cases e)
      case (Done r)
      with w rs show ?thesis by (auto simp: render_top [OF True] ended_well_def)
    next
      case (Thrown x r)
      with w rs show ?thesis
        by (auto simp: render_top [OF True] ended_well_def caught_fields caught_bad_alloc)
    next
      case Undefined
      with w show ?thesis by (simp add: ended_well_def)
    qed
  qed
qed

theorem failed_render_counts_zero_witness:
  "openscad_render unbounded exact_ops
      (scripted (throwing OtherException) (quiet (True, Some ())) (quiet (Some ())) (quiet (Some ()))
         (quiet (Some triangle_mesh)) (quiet None))
      ''cube(1);'' None \<lparr>g_initialized = False, g_cancelled = False\<rparr>
     = (Some \<lparr>success = False, error_message = ''Failed to initialize OpenSCAD engine'', console_output = [],
              positions = [], normals = [], indices = [], vertex_count = 0, triangle_count = 0\<rparr>,
        \<lparr>g_initialized = False, g_cancelled = False\<rparr>)
   \<and> openscad_render unbounded exact_ops
      (scripted (quiet ()) (printing ''ERROR: syntax error'' (quiet (False, None))) (quiet (Some ()))
         (quiet (Some ())) (quiet (Some triangle_mesh)) (quiet None))
      ''cube(;'' None \<lparr>g_initialized = False, g_cancelled = False\<rparr>
     = (Some \<lparr>success = False, error_message = ''Failed to parse OpenSCAD source'',
              console_output = ''ERROR: syntax error'',
              positions = [], normals = [], indices = [], vertex_count = 0, triangle_count = 0\<rparr>,
        \<lparr>g_initialized = True, g_cancelled = False\<rparr>)"
  using failed_render_counts_zero
    [where mem = unbounded and fp = exact_ops
      and eng = "scripted (throwing OtherException) (quiet (True, Some ())) (quiet (Some ())) (quiet (Some ()))
         (quiet (Some triangle_mesh)) (quiet None)" and scad_source = "''cube(1);''"
      and fonts_path = None and w = "\<lparr>g_initialized = False, g_cancelled = False\<rparr>"]
    failed_render_counts_zero
    [where mem = unbounded and fp = exact_ops
      and eng = "scripted (quiet ()) (printing ''ERROR: syntax error'' (quiet (False, None))) (quiet (Some ()))
         (quiet (Some ())) (quiet (Some triangle_mesh)) (quiet None)" and scad_source = "''cube(;''"
      and fonts_path = None and w = "\<lparr>g_initialized = False, g_cancelled = False\<rparr>"]
  by (simp add: openscad_render_def render_source_def sample_defs new_result_def failed_def)

text \<open>
  Claim C7. \<^verbatim>\<open>openscad_render\<close> always returns a result handle: no exception leaves it. An
  exception thrown by any of the five calls into the engine (parser, instantiation,
  evaluation, conversion to a polygon set, tessellation), at whatever point the render
  reaches that call, makes \<^verbatim>\<open>openscad_render\<close> return a failure whose message is
  \<open>Exception: \<close> followed by the text of \<^verbatim>\<open>what()\<close> for a \<^verbatim>\<open>std::exception\<close> and
  \<open>Unknown exception during render\<close> for anything else, with the console text captured up
  to the throw attached. The same holds for a failed \<^verbatim>\<open>reserve\<close> of lines 102 and 103, and
  for every exception that leaves \<^verbatim>\<open>extractMeshData\<close>: the message and the console text are
  written into the result object as \<^verbatim>\<open>extractMeshData\<close> has left it. (\<open>cw1\<close> to \<open>cw5\<close> are
  the captured text and the flags after the five calls have come back.)
\<close>

theorem render_catches_exceptions:
  fixes eng :: "('sf, 'node, 'geom, 'd) engine" and fp :: "('d, 'f) fp_ops" and w :: world
    and src :: string and sf :: 'sf and root_node :: 'node and geometry :: 'geom
    and polyset :: "'d PolySet"
  defines "iw \<equiv> ensure_initialized eng (w\<lparr>g_cancelled := False\<rparr>)"
  defines "cw1 \<equiv> observe (parse eng src) ([], snd iw)"
  defines "cw2 \<equiv> observe (instantiate eng sf) cw1"
  defines "cw3 \<equiv> observe (evaluateGeometry eng root_node) cw2"
  defines "cw4 \<equiv> observe (getGeometryAsPolySet eng geometry) cw3"
  defines "cw5 \<equiv> observe (tessellate_faces eng polyset) cw4"
  shows "(\<exists>r w'. openscad_render mem fp eng src fonts w = (Some r, w'))
    \<and> (fst iw = 0 \<longrightarrow>
        (outcome (parse eng src) = Inl e
         \<longrightarrow> openscad_render mem fp eng src fonts w
             = (Some (spec_fault_result e (fst cw1)), snd cw1))
      \<and> (outcome (parse eng src) = Inr (True, Some sf) \<and> \<not> g_cancelled (snd cw1) \<longrightarrow>
          (outcome (instantiate eng sf) = Inl e
           \<longrightarrow> openscad_render mem fp eng src fonts w
               = (Some (spec_fault_result e (fst cw2)), snd cw2))
        \<and> (outcome (instantiate eng sf) = Inr (Some root_node) \<and> \<not> g_cancelled (snd cw2) \<longrightarrow>
            (outcome (evaluateGeometry eng root_node) = Inl e
             \<longrightarrow> openscad_render mem fp eng src fonts w
                 = (Some (spec_fault_result e (fst cw3)), snd cw3))
          \<and> (outcome (evaluateGeometry eng root_node) = Inr (Some geometry)
               \<and> \<not> g_cancelled (snd cw3) \<longrightarrow>
              (outcome (getGeometryAsPolySet eng geometry) = Inl e
               \<longrightarrow> openscad_render mem fp eng src fonts w
                   = (Some (spec_fault_result e (fst cw4)), snd cw4))
            \<and> (outcome (getGeometryAsPolySet eng geometry) = Inr (Some polyset)
                 \<and> \<not> isEmpty eng polyset \<longrightarrow>
                (\<not> isTriangular eng polyset \<and> outcome (tessellate_faces eng polyset) = Inl e
                 \<longrightarrow> openscad_render mem fp eng src fonts w
                     = (Some (spec_fault_result e (fst cw5)), snd cw5))
              \<and> (isTriangular eng polyset \<and> (\<not> mem ReservePositions \<or> \<not> mem ReserveNormals)
                 \<longrightarrow> openscad_render mem fp eng src fonts w
                     = (Some (spec_fault_result bad_alloc (fst cw4)), snd cw4))
              \<and> (extractMeshData mem fp eng polyset new_result cw4 = (Thrown e r, cw')
                 \<longrightarrow> openscad_render mem fp eng src fonts w
                     = (Some (r\<lparr>error_message := spec_fault_message e,
                                console_output := fst cw'\<rparr>), snd cw')))))))"
proof -
  have total: "\<exists>r w'. openscad_render mem fp eng src fonts w = (Some r, w')"
    by (rule openscad_render_returns)
  have rest: "(outcome (parse eng src) = Inl e
         \<longrightarrow> openscad_render mem fp eng src fonts w
             = (Some (spec_fault_result e (fst cw1)), snd cw1))
      \<and> (outcome (parse eng src) = Inr (True, Some sf) \<and> \<not> g_cancelled (snd cw1) \<longrightarrow>
          (outcome (instantiate eng sf) = Inl e
           \<longrightarrow> openscad_render mem fp eng src fonts w
               = (Some (spec_fault_result e (fst cw2)), snd cw2))
        \<and> (outcome (instantiate eng sf) = Inr (Some root_node) \<and> \<not> g_cancelled (snd cw2) \<longrightarrow>
            (outcome (evaluateGeometry eng root_node) = Inl e
             \<longrightarrow> openscad_render mem fp eng src fonts w
                 = (Some (spec_fault_result e (fst cw3)), snd cw3))
          \<and> (outcome (evaluateGeometry eng root_node) = Inr (Some geometry)
               \<and> \<not> g_cancelled (snd cw3) \<longrightarrow>
              (outcome (getGeometryAsPolySet eng geometry) = Inl e
               \<longrightarrow> openscad_render mem fp eng src fonts w
                   = (Some (spec_fault_result e (fst cw4)), snd cw4))
            \<and> (outcome (getGeometryAsPolySet eng geometry) = Inr (Some polyset)
                 \<and> \<not> isEmpty eng polyset \<longrightarrow>
                (\<not> isTriangular eng polyset \<and> outcome (tessellate_faces eng polyset) = Inl e
                 \<longrightarrow> openscad_render mem fp eng src fonts w
                     = (Some (spec_fault_result e (fst cw5)), snd cw5))
              \<and> (isTriangular eng polyset \<and> (\<not> mem ReservePositions \<or> \<not> mem ReserveNormals)
                 \<longrightarrow> openscad_render mem fp eng src fonts w
                     = (Some (spec_fault_result bad_alloc (fst cw4)), snd cw4))
              \<and> (extractMeshData mem fp eng polyset new_result cw4 = (Thrown e r, cw')
                 \<longrightarrow> openscad_render mem fp eng src fonts w
                     = (Some (r\<lparr>error_message := spec_fault_message e,
                                console_output := fst cw'\<rparr>), snd cw'))))))"
    if init: "fst iw = 0"
  proof -
    have top: "openscad_render mem fp eng src fonts w =
      (case render_source mem fp eng new_result src ([], snd iw) of
            (Done r, cw) \<Rightarrow> (Some r, snd cw)
          | (Thrown e r, cw) \<Rightarrow> (Some (caught e (fst cw) r), snd cw)
          | (Undefined, cw) \<Rightarrow> (None, snd cw))"
      using init unfolding iw_def by (rule render_top)
    have thrown: "openscad_render mem fp eng src fonts w
             = (Some (x\<lparr>error_message := spec_fault_message y, console_output := fst c\<rparr>), snd c)"
      if "render_source mem fp eng new_result src ([], snd iw) = (Thrown y x, c)" for x y c
      using that by (simp add: top fault_eq)
    have fresh: "openscad_render mem fp eng src fonts w = (Some (spec_fault_result y (fst c)), snd c)"
      if "render_source mem fp eng new_result src ([], snd iw) = (Thrown y new_result, c)" for y c
      using that by (simp add: top fault_new)
    have p: "openscad_render mem fp eng src fonts w
             = (Some (spec_fault_result e (fst cw1)), snd cw1)"
      if "outcome (parse eng src) = Inl e"
      using that by (intro fresh) (simp add: render_source_def Let_def cw1_def)
    have s1: "render_source mem fp eng new_result src ([], snd iw)
                = render_node mem fp eng new_result sf cw1"
      if "outcome (parse eng src) = Inr (True, Some sf)" "\<not> g_cancelled (snd cw1)"
      using that unfolding cw1_def by (rule source_to_node)
    have i: "openscad_render mem fp eng src fonts w
             = (Some (spec_fault_result e (fst cw2)), snd cw2)"
      if "outcome (parse eng src) = Inr (True, Some sf)" "\<not> g_cancelled (snd cw1)"
        "outcome (instantiate eng sf) = Inl e"
      using that by (intro fresh) (simp add: s1 render_node_def Let_def cw2_def)
    have s2: "render_source mem fp eng new_result src ([], snd iw)
                = render_geometry mem fp eng new_result root_node cw2"
      if "outcome (parse eng src) = Inr (True, Some sf)" "\<not> g_cancelled (snd cw1)"
        "outcome (instantiate eng sf) = Inr (Some root_node)" "\<not> g_cancelled (snd cw2)"
      using that by (simp add: s1 cw2_def node_to_geometry)
    have g: "openscad_render mem fp eng src fonts w
             = (Some (spec_fault_result e (fst cw3)), snd cw3)"
      if "outcome (parse eng src) = Inr (True, Some sf)" "\<not> g_cancelled (snd cw1)"
        "outcome (instantiate eng sf) = Inr (Some root_node)" "\<not> g_cancelled (snd cw2)"
        "outcome (evaluateGeometry eng root_node) = Inl e"
      using that by (intro fresh) (simp add: s2 render_geometry_def Let_def cw3_def)
    have s3: "render_source mem fp eng new_result src ([], snd iw)
                = render_polyset mem fp eng new_result geometry cw3"
      if "outcome (parse eng src) = Inr (True, Some sf)" "\<not> g_cancelled (snd cw1)"
        "outcome (instantiate eng sf) = Inr (Some root_node)" "\<not> g_cancelled (snd cw2)"
        "outcome (evaluateGeometry eng root_node) = Inr (Some geometry)" "\<not> g_cancelled (snd cw3)"
      using that by (simp add: s2 cw3_def geometry_to_polyset)
    have c: "openscad_render mem fp eng src fonts w
             = (Some (spec_fault_result e (fst cw4)), snd cw4)"
      if "outcome (parse eng src) = Inr (True, Some sf)" "\<not> g_cancelled (snd cw1)"
        "outcome (instantiate eng sf) = Inr (Some root_node)" "\<not> g_cancelled (snd cw2)"
        "outcome (evaluateGeometry eng root_node) = Inr (Some geometry)" "\<not> g_cancelled (snd cw3)"
        "outcome (getGeometryAsPolySet eng geometry) = Inl e"
      using that by (intro fresh) (simp add: s3 render_polyset_def Let_def cw4_def)
    have s4: "render_source mem fp eng new_result src ([], snd iw) = (Thrown y x, c)"
      if "outcome (parse eng src) = Inr (True, Some sf)" "\<not> g_cancelled (snd cw1)"
        "outcome (instantiate eng sf) = Inr (Some root_node)" "\<not> g_cancelled (snd cw2)"
        "outcome (evaluateGeometry eng root_node) = Inr (Some geometry)" "\<not> g_cancelled (snd cw3)"
        "outcome (getGeometryAsPolySet eng geometry) = Inr (Some polyset)" "\<not> isEmpty eng polyset"
        "extractMeshData mem fp eng polyset new_result cw4 = (Thrown y x, c)" for x y c
      using that by (simp add: s3 cw4_def polyset_to_extract)
    have t: "openscad_render mem fp eng src fonts w
             = (Some (spec_fault_result e (fst cw5)), snd cw5)"
      if "outcome (parse eng src) = Inr (True, Some sf)" "\<not> g_cancelled (snd cw1)"
        "outcome (instantiate eng sf) = Inr (Some root_node)" "\<not> g_cancelled (snd cw2)"
        "outcome (evaluateGeometry eng root_node) = Inr (Some geometry)" "\<not> g_cancelled (snd cw3)"
        "outcome (getGeometryAsPolySet eng geometry) = Inr (Some polyset)" "\<not> isEmpty eng polyset"
        "\<not> isTriangular eng polyset" "outcome (tessellate_faces eng polyset) = Inl e"
    proof (intro fresh s4 that(1-8))
      show "extractMeshData mem fp eng polyset new_result cw4 = (Thrown e new_result, cw5)"
        using that(9,10) by (simp add: extractMeshData_def Let_def cw5_def)
    qed
    have m: "openscad_render mem fp eng src fonts w
             = (Some (spec_fault_result bad_alloc (fst cw4)), snd cw4)"
      if "outcome (parse eng src) = Inr (True, Some sf)" "\<not> g_cancelled (snd cw1)"
        "outcome (instantiate eng sf) = Inr (Some root_node)" "\<not> g_cancelled (snd cw2)"
        "outcome (evaluateGeometry eng root_node) = Inr (Some geometry)" "\<not> g_cancelled (snd cw3)"
        "outcome (getGeometryAsPolySet eng geometry) = Inr (Some polyset)" "\<not> isEmpty eng polyset"
        "isTriangular eng polyset" "\<not> mem ReservePositions \<or> \<not> mem ReserveNormals"
    proof (intro fresh s4 that(1-8))
      show "extractMeshData mem fp eng polyset new_result cw4 = (Thrown bad_alloc new_result, cw4)"
        using that(9,10) by (auto simp: extractMeshData_def fill_mesh_alloc_def Let_def)
    qed
    have x: "openscad_render mem fp eng src fonts w
             = (Some (r\<lparr>error_message := spec_fault_message e, console_output := fst cw'\<rparr>), snd cw')"
      if "outcome (parse eng src) = Inr (True, Some sf)" "\<not> g_cancelled (snd cw1)"
        "outcome (instantiate eng sf) = Inr (Some root_node)" "\<not> g_cancelled (snd cw2)"
        "outcome (evaluateGeometry eng root_node) = Inr (Some geometry)" "\<not> g_cancelled (snd cw3)"
        "outcome (getGeometryAsPolySet eng geometry) = Inr (Some polyset)" "\<not> isEmpty eng polyset"
        "extractMeshData mem fp eng polyset new_result cw4 = (Thrown e r, cw')"
      using that by (intro thrown s4)
    show ?thesis
      using p i g c t m x by blast
  qed
  from total rest show ?thesis by blast
qed

theorem render_catches_exceptions_witness:
  "openscad_render unbounded exact_ops
      (scripted (quiet ()) (printing ''a'' (quiet (True, Some ()))) (printing ''b'' (quiet (Some ())))
         (printing ''c'' (quiet (Some ()))) (printing ''d'' (quiet (Some quad_mesh)))
         (printing ''e'' (throwing (StdException ''bad alloc''))))
      ''cube(1);'' None \<lparr>g_initialized = True, g_cancelled = False\<rparr>
     = (Some \<lparr>success = False, error_message = ''Exception: bad alloc'', console_output = ''abcde'',
              positions = [], normals = [], indices = [], vertex_count = 0, triangle_count = 0\<rparr>,
        \<lparr>g_initialized = True, g_cancelled = False\<rparr>)
   \<and> openscad_render unbounded exact_ops
      (scripted (quiet ()) (printing ''a'' (throwing OtherException)) (quiet (Some ()))
         (quiet (Some ())) (quiet (Some quad_mesh)) (quiet None))
      ''cube(1);'' None \<lparr>g_initialized = True, g_cancelled = False\<rparr>
     = (Some \<lparr>success = False, error_message = ''Unknown exception during render'', console_output = ''a'',
              positions = [], normals = [], indices = [], vertex_count = 0, triangle_count = 0\<rparr>,
        \<lparr>g_initialized = True, g_cancelled = False\<rparr>)
   \<and> openscad_render unbounded exact_ops
      (scripted (quiet ()) (printing ''a'' (quiet (True, Some ())))
         (printing ''b'' (throwing (StdException ''no module''))) (quiet (Some ()))
         (quiet (Some quad_mesh)) (quiet None))
      ''cube(1);'' None \<lparr>g_initialized = True, g_cancelled = False\<rparr>
     = (Some \<lparr>success = False, error_message = ''Exception: no module'', console_output = ''ab'',
              positions = [], normals = [], indices = [], vertex_count = 0, triangle_count = 0\<rparr>,
        \<lparr>g_initialized = True, g_cancelled = False\<rparr>)
   \<and> openscad_render unbounded exact_ops
      (scripted (quiet ()) (printing ''a'' (quiet (True, Some ()))) (printing ''b'' (quiet (Some ())))
         (printing ''c'' (throwing OtherException)) (quiet (Some quad_mesh)) (quiet None))
      ''cube(1);'' None \<lparr>g_initialized = True, g_cancelled = False\<rparr>
     = (Some \<lparr>success = False, error_message = ''Unknown exception during render'', console_output = ''abc'',
              positions = [], normals = [], indices = [], vertex_count = 0, triangle_count = 0\<rparr>,
        \<lparr>g_initialized = True, g_cancelled = False\<rparr>)
   \<and> openscad_render unbounded exact_ops
      (scripted (quiet ()) (printing ''a'' (quiet (True, Some ()))) (printing ''b'' (quiet (Some ())))
         (printing ''c'' (quiet (Some ()))) (printing ''d'' (throwing (StdException ''CGAL'')))
         (quiet None))
      ''cube(1);'' None \<lparr>g_initialized = True, g_cancelled = False\<rparr>
     = (Some \<lparr>success = False, error_message = ''Exception: CGAL'', console_output = ''abcd'',
              positions = [], normals = [], indices = [], vertex_count = 0, triangle_count = 0\<rparr>,
        \<lparr>g_initialized = True, g_cancelled = False\<rparr>)
   \<and> openscad_render (failing_at ReserveNormals) exact_ops plain_engine
      ''cube(1);'' None \<lparr>g_initialized = True, g_cancelled = False\<rparr>
     = (Some \<lparr>success = False, error_message = ''Exception: std::bad_alloc'', console_output = [],
              positions = [], normals = [], indices = [], vertex_count = 0, triangle_count = 0\<rparr>,
        \<lparr>g_initialized = True, g_cancelled = False\<rparr>)
   \<and> openscad_render (failing_at (PushIndex 0)) exact_ops plain_engine
      ''cube(1);'' None \<lparr>g_initialized = True, g_cancelled = False\<rparr>
     = (Some \<lparr>success = False, error_message = ''Exception: std::bad_alloc'', console_output = [],
              positions = [0, 0, 0, 1, 0, 0, 0, 1, 0], normals = [0, 0, 0, 0, 0, 0, 0, 0, 0],
              indices = [], vertex_count = 0, triangle_count = 0\<rparr>,
        \<lparr>g_initialized = True, g_cancelled = False\<rparr>)"
proof -
  let ?eng = "scripted (quiet ()) (printing ''a'' (quiet (True, Some ()))) (printing ''b'' (quiet (Some ())))
         (printing ''c'' (quiet (Some ()))) (printing ''d'' (quiet (Some quad_mesh)))
         (printing ''e'' (throwing (StdException ''bad alloc'')))"
  let ?eng2 = "scripted (quiet ()) (printing ''a'' (throwing OtherException)) (quiet (Some ()))
         (quiet (Some ())) (quiet (Some quad_mesh)) (quiet None)"
  let ?w = "\<lparr>g_initialized = True, g_cancelled = False\<rparr>"
  have a: "openscad_render unbounded exact_ops ?eng ''cube(1);'' None ?w
     = (Some \<lparr>success = False, error_message = ''Exception: bad alloc'', console_output = ''abcde'',
              positions = [], normals = [], indices = [], vertex_count = 0, triangle_count = 0\<rparr>, ?w)"
    using render_catches_exceptions
      [where eng = ?eng and w = ?w and src = "''cube(1);''" and fp = exact_ops and fonts = None
        and mem = unbounded and sf = "()" and root_node = "()" and geometry = "()"
        and polyset = quad_mesh and e = "StdException ''bad alloc''"]
    by (simp add: sample_defs quad_mesh_def spec_fault_result_def spec_fault_message_def)
  have b: "openscad_render unbounded exact_ops ?eng2 ''cube(1);'' None ?w
     = (Some \<lparr>success = False, error_message = ''Unknown exception during render'', console_output = ''a'',
              positions = [], normals = [], indices = [], vertex_count = 0, triangle_count = 0\<rparr>, ?w)"
    using render_catches_exceptions
      [where eng = ?eng2 and w = ?w and src = "''cube(1);''" and fp = exact_ops and fonts = None
        and mem = unbounded and e = OtherException]
    by (simp add: sample_defs spec_fault_result_def spec_fault_message_def)
  have c: "openscad_render (failing_at ReserveNormals) exact_ops plain_engine ''cube(1);'' None ?w
     = (Some \<lparr>success = False, error_message = ''Exception: std::bad_alloc'', console_output = [],
              positions = [], normals = [], indices = [], vertex_count = 0, triangle_count = 0\<rparr>, ?w)"
    using render_catches_exceptions
      [where eng = plain_engine and w = ?w and src = "''cube(1);''" and fp = exact_ops and fonts = None
        and mem = "failing_at ReserveNormals" and sf = "()" and root_node = "()" and geometry = "()"
        and polyset = triangle_mesh]
    by (simp add: plain_engine_def sample_defs triangle_mesh_def failing_at_def
        spec_fault_result_def spec_fault_message_def bad_alloc_def)
  have d: "openscad_render (failing_at (PushIndex 0)) exact_ops plain_engine ''cube(1);'' None ?w
     = (Some \<lparr>success = False, error_message = ''Exception: std::bad_alloc'', console_output = [],
              positions = [0, 0, 0, 1, 0, 0, 0, 1, 0], normals = [0, 0, 0, 0, 0, 0, 0, 0, 0],
              indices = [], vertex_count = 0, triangle_count = 0\<rparr>, ?w)"
    using render_catches_exceptions
      [where eng = plain_engine and w = ?w and src = "''cube(1);''" and fp = exact_ops and fonts = None
        and mem = "failing_at (PushIndex 0)" and sf = "()" and root_node = "()" and geometry = "()"
        and polyset = triangle_mesh and e = bad_alloc and cw' = "([], ?w)"
        and r = "new_result\<lparr>positions := [0, 0, 0, 1, 0, 0, 0, 1, 0],
                      normals := [0, 0, 0, 0, 0, 0, 0, 0, 0]\<rparr>"]
      sample_push_fails [of "([], ?w)"]
    by (simp add: plain_engine_def sample_defs triangle_mesh_def
        spec_fault_message_def bad_alloc_def new_result_def)
  have i2: "openscad_render unbounded exact_ops
      (scripted (quiet ()) (printing ''a'' (quiet (True, Some ())))
         (printing ''b'' (throwing (StdException ''no module''))) (quiet (Some ()))
         (quiet (Some quad_mesh)) (quiet None))
      ''cube(1);'' None ?w
     = (Some \<lparr>success = False, error_message = ''Exception: no module'', console_output = ''ab'',
              positions = [], normals = [], indices = [], vertex_count = 0, triangle_count = 0\<rparr>, ?w)"
    using render_catches_exceptions
      [where eng = "scripted (quiet ()) (printing ''a'' (quiet (True, Some ())))
         (printing ''b'' (throwing (StdException ''no module''))) (quiet (Some ()))
         (quiet (Some quad_mesh)) (quiet None)"
        and w = ?w and src = "''cube(1);''" and fp = exact_ops and fonts = None
        and mem = unbounded and sf = "()" and root_node = "()" and geometry = "()"
        and e = "StdException ''no module''"]
    by (simp add: sample_defs spec_fault_result_def spec_fault_message_def)
  have g2: "openscad_render unbounded exact_ops
      (scripted (quiet ()) (printing ''a'' (quiet (True, Some ()))) (printing ''b'' (quiet (Some ())))
         (printing ''c'' (throwing OtherException)) (quiet (Some quad_mesh)) (quiet None))
      ''cube(1);'' None ?w
     = (Some \<lparr>success = False, error_message = ''Unknown exception during render'', console_output = ''abc'',
              positions = [], normals = [], indices = [], vertex_count = 0, triangle_count = 0\<rparr>, ?w)"
    using render_catches_exceptions
      [where eng = "scripted (quiet ()) (printing ''a'' (quiet (True, Some ()))) (printing ''b'' (quiet (Some ())))
         (printing ''c'' (throwing OtherException)) (quiet (Some quad_mesh)) (quiet None)"
        and w = ?w and src = "''cube(1);''" and fp = exact_ops and fonts = None
        and mem = unbounded and sf = "()" and root_node = "()" and geometry = "()"
        and e = "OtherException"]
    by (simp add: sample_defs spec_fault_result_def spec_fault_message_def)
  have c2: "openscad_render unbounded exact_ops
      (scripted (quiet ()) (printing ''a'' (quiet (True, Some ()))) (printing ''b'' (quiet (Some ())))
         (printing ''c'' (quiet (Some ()))) (printing ''d'' (throwing (StdException ''CGAL'')))
         (quiet None))
      ''cube(1);'' None ?w
     = (Some \<lparr>success = False, error_message = ''Exception: CGAL'', console_output = ''abcd'',
              positions = [], normals = [], indices = [], vertex_count = 0, triangle_count = 0\<rparr>, ?w)"
    using render_catches_exceptions
      [where eng = "scripted (quiet ()) (printing ''a'' (quiet (True, Some ()))) (printing ''b'' (quiet (Some ())))
         (printing ''c'' (quiet (Some ()))) (printing ''d'' (throwing (StdException ''CGAL'')))
         (quiet None)"
        and w = ?w and src = "''cube(1);''" and fp = exact_ops and fonts = None
        and mem = unbounded and sf = "()" and root_node = "()" and geometry = "()"
        and e = "StdException ''CGAL''"]
    by (simp add: sample_defs spec_fault_result_def spec_fault_message_def)
  from a b i2 g2 c2 c d show ?thesis by simp
qed

text \<open>
  Claim C8, as stated, fails after a failed first call: the \<^verbatim>\<open>catch\<close> clause of
  \<^verbatim>\<open>openscad_init\<close> clears the flag again (line 191), so the second call runs the setup
  once more; it returns \<open>-1\<close> when the setup throws again and sets the flag when the setup
  succeeds, neither of which a single call does.
\<close>

theorem init_twice_counterexample:
  "openscad_init (throwing OtherException) \<lparr>g_initialized = False, g_cancelled = False\<rparr>
     = (- 1, \<lparr>g_initialized = False, g_cancelled = False\<rparr>)
   \<and> openscad_init (throwing OtherException)
       (snd (openscad_init (throwing OtherException) \<lparr>g_initialized = False, g_cancelled = False\<rparr>))
     = (- 1, \<lparr>g_initialized = False, g_cancelled = False\<rparr>)
   \<and> openscad_init (quiet ())
       (snd (openscad_init (throwing OtherException) \<lparr>g_initialized = False, g_cancelled = False\<rparr>))
     = (0, \<lparr>g_initialized = True, g_cancelled = False\<rparr>)"
  by (simp add: openscad_init_def throwing_def quiet_def)

text \<open>
  Claim C8, amended. \<^verbatim>\<open>openscad_init\<close> is idempotent once it has succeeded: whenever the
  flag is already set, a call returns 0 and changes nothing, whatever the setup would do
  (it is not run); and after a call that returned 0 the flag is set and a second call
  returns 0 and leaves the flags as they are. After a call that did not return 0 the
  status is \<open>-1\<close> and the flag is clear again, and the next call runs the setup again: it
  returns 0 and sets the flag when the setup succeeds, and returns \<open>-1\<close> and leaves the
  flag clear when the setup throws.
\<close>

theorem init_again_after_success:
  "(g_initialized w \<longrightarrow> openscad_init setup w = (0, w))
   \<and> (fst (openscad_init setup w) = 0 \<longrightarrow>
        g_initialized (snd (openscad_init setup w))
        \<and> openscad_init setup' (snd (openscad_init setup w)) = (0, snd (openscad_init setup w)))
   \<and> (fst (openscad_init setup w) \<noteq> 0 \<longrightarrow>
        fst (openscad_init setup w) = - 1
        \<and> \<not> g_initialized (snd (openscad_init setup w))
        \<and> (outcome setup' = Inr u \<longrightarrow>
              fst (openscad_init setup' (snd (openscad_init setup w))) = 0
              \<and> g_initialized (snd (openscad_init setup' (snd (openscad_init setup w)))))
        \<and> (outcome setup' = Inl e \<longrightarrow>
              fst (openscad_init setup' (snd (openscad_init setup w))) = - 1
              \<and> \<not> g_initialized (snd (openscad_init setup' (snd (openscad_init setup w))))))"
  by (cases "outcome setup") (auto simp: openscad_init_def Let_def)

theorem init_again_after_success_witness:
  "fst (openscad_init (quiet ()) \<lparr>g_initialized = False, g_cancelled = False\<rparr>) = 0
   \<and> openscad_init (quiet ()) \<lparr>g_initialized = False, g_cancelled = False\<rparr>
       = (0, \<lparr>g_initialized = True, g_cancelled = False\<rparr>)
   \<and> openscad_init (throwing OtherException) \<lparr>g_initialized = True, g_cancelled = False\<rparr>
       = (0, \<lparr>g_initialized = True, g_cancelled = False\<rparr>)
   \<and> fst (openscad_init (throwing (StdException ''setup''))
            \<lparr>g_initialized = False, g_cancelled = False\<rparr>) = - 1
   \<and> \<not> g_initialized (snd (openscad_init (throwing (StdException ''setup''))
            \<lparr>g_initialized = False, g_cancelled = False\<rparr>))
   \<and> fst (openscad_init (quiet ())
            (snd (openscad_init (throwing (StdException ''setup''))
               \<lparr>g_initialized = False, g_cancelled = False\<rparr>))) = 0
   \<and> g_initialized (snd (openscad_init (quiet ())
            (snd (openscad_init (throwing (StdException ''setup''))
               \<lparr>g_initialized = False, g_cancelled = False\<rparr>))))
   \<and> fst (openscad_init (throwing OtherException)
            (snd (openscad_init (throwing (StdException ''setup''))
               \<lparr>g_initialized = False, g_cancelled = False\<rparr>))) = - 1
   \<and> \<not> g_initialized (snd (openscad_init (throwing OtherException)
            (snd (openscad_init (throwing (StdException ''setup''))
               \<lparr>g_initialized = False, g_cancelled = False\<rparr>))))"
proof -
  have e: "openscad_init (quiet ()) \<lparr>g_initialized = False, g_cancelled = False\<rparr>
       = (0, \<lparr>g_initialized = True, g_cancelled = False\<rparr>)"
    by (simp add: openscad_init_def quiet_def)
  have f: "fst (openscad_init (throwing (StdException ''setup''))
            \<lparr>g_initialized = False, g_cancelled = False\<rparr>) \<noteq> 0"
    "outcome (quiet () :: unit call) = Inr ()"
    "outcome (throwing OtherException :: unit call) = Inl OtherException"
    by (simp_all add: openscad_init_def throwing_def quiet_def)
  from init_again_after_success
    [of "\<lparr>g_initialized = False, g_cancelled = False\<rparr>" "quiet ()" "throwing OtherException"]
    init_again_after_success
    [of "\<lparr>g_initialized = False, g_cancelled = False\<rparr>" "throwing (StdException ''setup'')"
      "quiet ()" "()"]
    init_again_after_success
    [of "\<lparr>g_initialized = False, g_cancelled = False\<rparr>" "throwing (StdException ''setup'')"
      "throwing OtherException" "()" OtherException]
    e f
  show ?thesis by simp
qed

text \<open>
  Claim C9. The argument \<open>fonts_path\<close> of \<^verbatim>\<open>openscad_render\<close> has no effect: two calls that
  differ only in it return the same result and leave the same flags.
\<close>

theorem fonts_path_ignored:
  "openscad_render mem fp eng scad_source fonts_path w
     = openscad_render mem fp eng scad_source fonts_path' w"
  by (simp add: openscad_render_def)

theorem fonts_path_ignored_witness:
  "openscad_render unbounded exact_ops plain_engine ''cube(1);'' (Some ''/usr/share/fonts'') \<lparr>g_initialized = True, g_cancelled = False\<rparr>
   = openscad_render unbounded exact_ops plain_engine ''cube(1);'' None \<lparr>g_initialized = True, g_cancelled = False\<rparr>"
  using fonts_path_ignored [where mem = unbounded and fp = exact_ops and eng = plain_engine
      and scad_source = "''cube(1);''" and fonts_path = "Some ''/usr/share/fonts''"
      and w = "\<lparr>g_initialized = True, g_cancelled = False\<rparr>" and fonts_path' = None]
  by simp


end
